theory Spec2Isabelle
  imports Main "HOL-Library.Multiset" "HOL-Library.Char_ord" "HOL-Library.List_Lexorder"
begin

section \<open>Data model\<close>

text \<open>
  The objects that js/database.js stores and receives. A property that the code tests for
  absence, or that the data model calls optional, is an \<open>option\<close> (\<open>None\<close>: the property is
  missing or \<open>undefined\<close>). So is the type of a category: addCategory stores a category
  without one, and the index on the type then does not hold it. Strings are compared as
  the storage engine compares string keys (by code unit, here the lexicographic order on
  \<open>char list\<close>). An amount is a JavaScript Number, a value of the type \<open>'n\<close> that the
  model leaves open; the arithmetic of Numbers is not that of the reals, and what the
  code computes with it is stated with the operations of the engine (see \<open>numberOps\<close>).
\<close>

record 'n transaction =
  t_id :: "string option"
  t_type :: string
  t_name :: string
  t_description :: "string option"
  t_amount :: 'n
  t_date :: string
  t_category :: "string option"
  t_createdAt :: "string option"
  t_updatedAt :: "string option"

record category =
  c_id :: "string option"
  c_name :: string
  c_type :: "string option"
  c_color :: "string option"
  c_icon :: "string option"
  c_createdAt :: "string option"
  c_updatedAt :: "string option"

text \<open>
  The second argument of updateTransaction and updateCategory: an object holding some of
  the properties. \<open>None\<close> means that the object does not have the property, \<open>Some v\<close> that
  it has it with value \<open>v\<close>.
\<close>

record 'n transactionUpdates =
  u_id :: "string option"
  u_type :: "string option"
  u_name :: "string option"
  u_description :: "string option"
  u_amount :: "'n option"
  u_date :: "string option"
  u_category :: "string option"
  u_createdAt :: "string option"

record categoryUpdates =
  cu_id :: "string option"
  cu_name :: "string option"
  cu_type :: "string option"
  cu_color :: "string option"
  cu_icon :: "string option"
  cu_createdAt :: "string option"

text \<open>
  The failures. The first four are the \<open>new Error(...)\<close> values of database.js, named after
  their messages; the next four are the DOMExceptions of the storage engine, which the code
  passes on through \<open>reject(event.target.error)\<close>; the last is thrown by the language.
\<close>

datatype error =
    NotInitialized      \<comment> \<open>'Base de datos no inicializada'\<close>
  | NotFound            \<comment> \<open>'Transaccion no encontrada', 'Categoria no encontrada'\<close>
  | CategoryInUse nat   \<comment> \<open>'No se puede eliminar: n transacciones usan esta categoria'\<close>
  | InvalidFormat       \<comment> \<open>'Formato de datos invalido'\<close>
  | ConstraintError     \<comment> \<open>add or put: the key, or the key of a unique index, is already there\<close>
  | DataError           \<comment> \<open>no valid key in the value, or a key range with lower > upper\<close>
  | NotFoundError       \<comment> \<open>the object store or the index does not exist\<close>
  | VersionError        \<comment> \<open>open: the stored database is newer than the requested version\<close>
  | TypeError           \<comment> \<open>the language: a property of \<open>null\<close> or \<open>undefined\<close> is read\<close>

text \<open>
  What one call reads from the outside world: \<open>new Date().toISOString()\<close> and the result of
  \<open>generateId()\<close> (the clock and \<open>Math.random\<close>).
\<close>

record env =
  now :: string
  generateId :: string

text \<open>
  The Database object together with the IndexedDB database it opens: \<open>db\<close> is \<open>this.db\<close>
  (\<open>False\<close> for \<open>null\<close>); each object store has its list of index names (\<open>None\<close>: the store
  does not exist) and its records, kept in no particular order (the engine returns them
  by ascending key, see \<open>store_getAll\<close>).
\<close>

record 'n database =
  db :: bool
  version :: nat
  txIndexNames :: "string list option"
  catIndexNames :: "string list option"
  transactions :: "'n transaction list"
  categories :: "category list"

section \<open>The storage engine\<close>

text \<open>
  An object store with \<open>keyPath: 'id'\<close> and no key generator, as a list of records with
  the key read from the value by \<open>key\<close>. \<open>add\<close> refuses a value without key and a key that
  is present; \<open>put\<close> replaces the record of that key; \<open>delete\<close> of a key that is absent
  succeeds and changes nothing; \<open>getAll\<close> returns the records by ascending key.
\<close>

definition keyOf :: "string option \<Rightarrow> string" where
  "keyOf k = (case k of None \<Rightarrow> [] | Some s \<Rightarrow> s)"

definition store_add :: "('r \<Rightarrow> string option) \<Rightarrow> 'r \<Rightarrow> 'r list \<Rightarrow> error + 'r list" where
  "store_add key v rs =
     (case key v of
        None \<Rightarrow> Inl DataError
      | Some k \<Rightarrow> if Some k \<in> set (map key rs) then Inl ConstraintError else Inr (rs @ [v]))"

definition store_put :: "('r \<Rightarrow> string option) \<Rightarrow> 'r \<Rightarrow> 'r list \<Rightarrow> error + 'r list" where
  "store_put key v rs =
     (case key v of
        None \<Rightarrow> Inl DataError
      | Some k \<Rightarrow> Inr (filter (\<lambda>r. key r \<noteq> Some k) rs @ [v]))"

definition store_get :: "('r \<Rightarrow> string option) \<Rightarrow> string \<Rightarrow> 'r list \<Rightarrow> 'r option" where
  "store_get key k rs = find (\<lambda>r. key r = Some k) rs"

definition store_delete :: "('r \<Rightarrow> string option) \<Rightarrow> string \<Rightarrow> 'r list \<Rightarrow> 'r list" where
  "store_delete key k rs = filter (\<lambda>r. key r \<noteq> Some k) rs"

definition store_getAll :: "('r \<Rightarrow> string option) \<Rightarrow> 'r list \<Rightarrow> 'r list" where
  "store_getAll key rs = sort_key (\<lambda>r. keyOf (key r)) rs"

text \<open>
  \<open>index.getAll(query)\<close> over an index on a string property: the records that have the
  property and whose value the query accepts, by ascending index key and, for equal
  index keys, by ascending primary key.
\<close>

definition index_getAll ::
  "('r \<Rightarrow> string option) \<Rightarrow> ('r \<Rightarrow> string option) \<Rightarrow> (string \<Rightarrow> bool) \<Rightarrow> 'r list \<Rightarrow> 'r list" where
  "index_getAll key prop query rs =
     sort_key (\<lambda>r. keyOf (prop r))
       (store_getAll key (filter (\<lambda>r. case prop r of None \<Rightarrow> False | Some v \<Rightarrow> query v) rs))"

text \<open>
  \<open>Array.prototype.sort(compareFn)\<close> for a comparison that is consistent (it orders the
  elements): the sort is stable, so the result is determined, and it is the one of this
  insertion sort, where an element goes before the first element that the comparison does
  not put before it. The comparison returns a negative number, zero or a positive number.
  For a comparison that is not consistent the order of the result is left to the engine;
  \<open>sortBy\<close> is used only where the comparison is consistent.
\<close>

fun insertBy :: "('a \<Rightarrow> 'a \<Rightarrow> int) \<Rightarrow> 'a \<Rightarrow> 'a list \<Rightarrow> 'a list" where
  "insertBy cmp x [] = [x]"
| "insertBy cmp x (y # ys) = (if cmp x y \<le> 0 then x # y # ys else y # insertBy cmp x ys)"

definition sortBy :: "('a \<Rightarrow> 'a \<Rightarrow> int) \<Rightarrow> 'a list \<Rightarrow> 'a list" where
  "sortBy cmp xs = foldr (insertBy cmp) xs []"

section \<open>Opening the database\<close>

definition dbVersion :: nat where
  "dbVersion = 2"

text \<open>The handler \<open>request.onupgradeneeded\<close> of \<open>init\<close>.\<close>

definition onupgradeneeded :: "'n database \<Rightarrow> 'n database" where
  "onupgradeneeded d =
     (let d1 = (case txIndexNames d of
                  None \<Rightarrow> d\<lparr>txIndexNames := Some [''date'', ''type'', ''amount'', ''category''],
                           transactions := []\<rparr>
                | Some ixs \<Rightarrow>
                    if ''category'' \<notin> set ixs
                    then d\<lparr>txIndexNames := Some (ixs @ [''category''])\<rparr>
                    else d)
      in case catIndexNames d1 of
           None \<Rightarrow> d1\<lparr>catIndexNames := Some [''type'', ''name''], categories := []\<rparr>
         | Some _ \<Rightarrow> d1)"

text \<open>
  \<open>indexedDB.open(dbName, dbVersion)\<close>: fails when the stored version is higher, runs the
  upgrade when it is lower, and then stores the connection in \<open>this.db\<close>.
\<close>

definition init :: "'n database \<Rightarrow> error + 'n database" where
  "init d =
     (if dbVersion < version d then Inl VersionError
      else Inr ((if version d < dbVersion then (onupgradeneeded d)\<lparr>version := dbVersion\<rparr> else d)
                  \<lparr>db := True\<rparr>))"

text \<open>
  \<open>this.db.transaction([store], mode).objectStore(store)\<close> after the test of \<open>this.db\<close>:
  the index names of the store, or the failure.
\<close>

definition txStore :: "'n database \<Rightarrow> error + string list" where
  "txStore d =
     (if \<not> db d then Inl NotInitialized
      else case txIndexNames d of None \<Rightarrow> Inl NotFoundError | Some ixs \<Rightarrow> Inr ixs)"

definition catStore :: "'n database \<Rightarrow> error + string list" where
  "catStore d =
     (if \<not> db d then Inl NotInitialized
      else case catIndexNames d of None \<Rightarrow> Inl NotFoundError | Some ixs \<Rightarrow> Inr ixs)"

text \<open>
  A database as \<open>init\<close> leaves it: the connection is there, and both stores have the indexes
  that \<open>onupgradeneeded\<close> creates.
\<close>

definition initialized :: "'n database \<Rightarrow> bool" where
  "initialized d =
     (db d \<and>
      (case txIndexNames d of
         None \<Rightarrow> False
       | Some ixs \<Rightarrow> ''date'' \<in> set ixs \<and> ''type'' \<in> set ixs \<and> ''category'' \<in> set ixs) \<and>
      (case catIndexNames d of
         None \<Rightarrow> False
       | Some ixs \<Rightarrow> ''type'' \<in> set ixs \<and> ''name'' \<in> set ixs))"

section \<open>Transactions\<close>

definition falsy :: "string option \<Rightarrow> bool" where
  "falsy v = (v = None \<or> v = Some [])"

text \<open>The two assignments of addTransaction before \<open>store.add\<close>.\<close>

definition assignIdCreatedAt :: "env \<Rightarrow> 'n transaction \<Rightarrow> 'n transaction" where
  "assignIdCreatedAt e transaction =
     (let t1 = (if falsy (t_id transaction)
                then transaction\<lparr>t_id := Some (generateId e)\<rparr> else transaction)
      in if falsy (t_createdAt t1) then t1\<lparr>t_createdAt := Some (now e)\<rparr> else t1)"

definition addTransaction :: "env \<Rightarrow> 'n transaction \<Rightarrow> 'n database \<Rightarrow> (error + string) \<times> 'n database" where
  "addTransaction e transaction d =
     (case txStore d of
        Inl err \<Rightarrow> (Inl err, d)
      | Inr _ \<Rightarrow>
          (let t = assignIdCreatedAt e transaction in
           case store_add t_id t (transactions d) of
             Inl err \<Rightarrow> (Inl err, d)
           | Inr rs \<Rightarrow> (Inr (keyOf (t_id t)), d\<lparr>transactions := rs\<rparr>)))"

text \<open>
  The comparison of getAllTransactions, \<open>new Date(b.date) - new Date(a.date)\<close>. The value
  of a date string is what the Date constructor makes of it (\<open>None\<close>: an invalid date, for
  which the difference is \<open>NaN\<close>); it is a parameter of the model.
\<close>

definition compareDateDesc :: "(string \<Rightarrow> int option) \<Rightarrow> 'n transaction \<Rightarrow> 'n transaction \<Rightarrow> int" where
  "compareDateDesc dateValue a b =
     (case (dateValue (t_date b), dateValue (t_date a)) of
        (Some vb, Some va) \<Rightarrow> vb - va
      | _ \<Rightarrow> 0)"

text \<open>
  \<open>transactions.sort((a, b) => new Date(b.date) - new Date(a.date))\<close>. When every date is
  valid the comparison is consistent, and the result is that of the stable sort. When a
  date is invalid a difference is \<open>NaN\<close>, the comparison need not be consistent, and the
  order is the engine's choice: some arrangement of the same records, given to the model
  as a ranking \<open>engineRank\<close> of the records (any arrangement of different records is the
  sort by some ranking).
\<close>

definition sortByDateDesc ::
  "(string \<Rightarrow> int option) \<Rightarrow> ('n transaction \<Rightarrow> nat) \<Rightarrow> 'n transaction list \<Rightarrow> 'n transaction list" where
  "sortByDateDesc dateValue engineRank ts =
     (if list_all (\<lambda>t. dateValue (t_date t) \<noteq> None) ts
      then sortBy (compareDateDesc dateValue) ts
      else sort_key engineRank ts)"

definition getAllTransactions ::
  "(string \<Rightarrow> int option) \<Rightarrow> ('n transaction \<Rightarrow> nat) \<Rightarrow> 'n database \<Rightarrow> error + 'n transaction list" where
  "getAllTransactions dateValue engineRank d =
     (case txStore d of
        Inl err \<Rightarrow> Inl err
      | Inr _ \<Rightarrow> Inr (sortByDateDesc dateValue engineRank (store_getAll t_id (transactions d))))"

definition getTransaction :: "'n database \<Rightarrow> string \<Rightarrow> error + 'n transaction option" where
  "getTransaction d i =
     (case txStore d of
        Inl err \<Rightarrow> Inl err
      | Inr _ \<Rightarrow> Inr (store_get t_id i (transactions d)))"

text \<open>The object \<open>{...transaction, ...updates, updatedAt: new Date().toISOString()}\<close>.\<close>

definition pick :: "'a option \<Rightarrow> 'a \<Rightarrow> 'a" where
  "pick u old = (case u of None \<Rightarrow> old | Some v \<Rightarrow> v)"

definition pickOpt :: "'a option \<Rightarrow> 'a option \<Rightarrow> 'a option" where
  "pickOpt u old = (case u of None \<Rightarrow> old | Some v \<Rightarrow> Some v)"

definition mergeTransaction :: "env \<Rightarrow> 'n transaction \<Rightarrow> 'n transactionUpdates \<Rightarrow> 'n transaction" where
  "mergeTransaction e t u =
     \<lparr> t_id = pickOpt (u_id u) (t_id t),
       t_type = pick (u_type u) (t_type t),
       t_name = pick (u_name u) (t_name t),
       t_description = pickOpt (u_description u) (t_description t),
       t_amount = pick (u_amount u) (t_amount t),
       t_date = pick (u_date u) (t_date t),
       t_category = pickOpt (u_category u) (t_category t),
       t_createdAt = pickOpt (u_createdAt u) (t_createdAt t),
       t_updatedAt = Some (now e) \<rparr>"

definition updateTransaction ::
  "env \<Rightarrow> string \<Rightarrow> 'n transactionUpdates \<Rightarrow> 'n database \<Rightarrow> (error + 'n transaction) \<times> 'n database" where
  "updateTransaction e i updates d =
     (case txStore d of
        Inl err \<Rightarrow> (Inl err, d)
      | Inr _ \<Rightarrow>
          (case store_get t_id i (transactions d) of
             None \<Rightarrow> (Inl NotFound, d)
           | Some t \<Rightarrow>
               (let updatedTransaction = mergeTransaction e t updates in
                case store_put t_id updatedTransaction (transactions d) of
                  Inl err \<Rightarrow> (Inl err, d)
                | Inr rs \<Rightarrow> (Inr updatedTransaction, d\<lparr>transactions := rs\<rparr>))))"

definition deleteTransaction :: "string \<Rightarrow> 'n database \<Rightarrow> (error + bool) \<times> 'n database" where
  "deleteTransaction i d =
     (case txStore d of
        Inl err \<Rightarrow> (Inl err, d)
      | Inr _ \<Rightarrow> (Inr True, d\<lparr>transactions := store_delete t_id i (transactions d)\<rparr>))"

text \<open>
  \<open>store.index(name)\<close> throws NotFoundError when the store has no such index.
  \<open>IDBKeyRange.bound(lower, upper)\<close> includes both bounds and throws DataError when
  \<open>lower > upper\<close>.
\<close>

definition getTransactionsByDateRange ::
  "'n database \<Rightarrow> string \<Rightarrow> string \<Rightarrow> error + 'n transaction list" where
  "getTransactionsByDateRange d startDate endDate =
     (case txStore d of
        Inl err \<Rightarrow> Inl err
      | Inr ixs \<Rightarrow>
          if ''date'' \<notin> set ixs then Inl NotFoundError
          else if endDate < startDate then Inl DataError
          else Inr (index_getAll t_id (\<lambda>t. Some (t_date t))
                      (\<lambda>v. startDate \<le> v \<and> v \<le> endDate) (transactions d)))"

definition getTransactionsByType :: "'n database \<Rightarrow> string \<Rightarrow> error + 'n transaction list" where
  "getTransactionsByType d ty =
     (case txStore d of
        Inl err \<Rightarrow> Inl err
      | Inr ixs \<Rightarrow>
          if ''type'' \<notin> set ixs then Inl NotFoundError
          else Inr (index_getAll t_id (\<lambda>t. Some (t_type t)) (\<lambda>v. v = ty) (transactions d)))"

section \<open>Statistics\<close>

text \<open>
  The operations on Numbers that getStats uses, as the engine performs them on IEEE
  doubles: \<open>+\<close>, \<open>-\<close>, the literal \<open>0\<close> and \<open>parseFloat\<close>. They are parameters of the model,
  and nothing is assumed of them (the addition of doubles rounds, and is not
  associative).
\<close>

record 'n numberOps =
  num_add :: "'n \<Rightarrow> 'n \<Rightarrow> 'n"
  num_sub :: "'n \<Rightarrow> 'n \<Rightarrow> 'n"
  num_zero :: 'n
  parseFloat :: "'n \<Rightarrow> 'n"

record 'n stats =
  totalIncome :: 'n
  totalExpense :: 'n
  balance :: 'n
  count :: nat

text \<open>The body of the \<open>forEach\<close> of getStats.\<close>

definition addToStats :: "'n numberOps \<Rightarrow> 'n stats \<Rightarrow> 'n transaction \<Rightarrow> 'n stats" where
  "addToStats ops s transaction =
     (if t_type transaction = ''income''
      then s\<lparr>totalIncome := num_add ops (totalIncome s) (parseFloat ops (t_amount transaction))\<rparr>
      else s\<lparr>totalExpense := num_add ops (totalExpense s) (parseFloat ops (t_amount transaction))\<rparr>)"

definition getStats ::
  "'n numberOps \<Rightarrow> (string \<Rightarrow> int option) \<Rightarrow> ('n transaction \<Rightarrow> nat) \<Rightarrow> 'n database \<Rightarrow> error + 'n stats" where
  "getStats ops dateValue engineRank d =
     (case getAllTransactions dateValue engineRank d of
        Inl err \<Rightarrow> Inl err
      | Inr ts \<Rightarrow>
          (let s0 = \<lparr>totalIncome = num_zero ops, totalExpense = num_zero ops,
                     balance = num_zero ops, count = length ts\<rparr>;
               s1 = foldl (addToStats ops) s0 ts
           in Inr (s1\<lparr>balance := num_sub ops (totalIncome s1) (totalExpense s1)\<rparr>)))"

section \<open>Backup and restore\<close>

text \<open>
  The value of the property \<open>transactions\<close> of the argument of importData: any JavaScript
  value, \<open>JUndefined\<close> when the argument does not have the property. Of a number only its
  truth value matters (\<open>0\<close> and \<open>NaN\<close> are falsy). An array holds transaction objects.
\<close>

datatype 'n jsval =
    JUndefined
  | JNull
  | JBool bool
  | JZeroOrNaN
  | JOtherNumber
  | JStr string
  | JObject
  | JArray "'n transaction list"

fun jsFalsy :: "'n jsval \<Rightarrow> bool" where
  "jsFalsy JUndefined = True"
| "jsFalsy JNull = True"
| "jsFalsy (JBool b) = (\<not> b)"
| "jsFalsy JZeroOrNaN = True"
| "jsFalsy JOtherNumber = False"
| "jsFalsy (JStr s) = (s = [])"
| "jsFalsy JObject = False"
| "jsFalsy (JArray ts) = False"

fun isArray :: "'n jsval \<Rightarrow> bool" where
  "isArray (JArray ts) = True"
| "isArray _ = False"

fun elements :: "'n jsval \<Rightarrow> 'n transaction list" where
  "elements (JArray ts) = ts"
| "elements _ = []"

record 'n backup =
  exportedAt :: "string option"
  b_count :: "nat option"
  b_transactions :: "'n jsval"

text \<open>
  The argument of importData, which App.importData of js/ui.js takes from \<open>JSON.parse\<close>
  of the chosen file:
  \<open>null\<close> or \<open>undefined\<close>, where reading a property throws a TypeError, or any other value
  with its properties (a number, a string, a boolean or an array has no property
  \<open>transactions\<close>).
\<close>

datatype 'n jsdata =
    JNullish
  | JData "'n backup"

definition exportData ::
  "(string \<Rightarrow> int option) \<Rightarrow> ('n transaction \<Rightarrow> nat) \<Rightarrow> env \<Rightarrow> 'n database \<Rightarrow> error + 'n backup" where
  "exportData dateValue engineRank e d =
     (case getAllTransactions dateValue engineRank d of
        Inl err \<Rightarrow> Inl err
      | Inr ts \<Rightarrow>
          Inr \<lparr>exportedAt = Some (now e), b_count = Some (length ts), b_transactions = JArray ts\<rparr>)"

definition clearAll :: "'n database \<Rightarrow> (error + bool) \<times> 'n database" where
  "clearAll d =
     (case txStore d of
        Inl err \<Rightarrow> (Inl err, d)
      | Inr _ \<Rightarrow> (Inr True, d\<lparr>transactions := []\<rparr>))"

text \<open>
  The loop \<open>for (const transaction of data.transactions) await this.addTransaction(transaction)\<close>;
  the \<open>n\<close>-th call reads the outside world \<open>world n\<close>. A rejected add ends the loop, and what
  was added before stays.
\<close>

fun importLoop :: "(nat \<Rightarrow> env) \<Rightarrow> nat \<Rightarrow> 'n transaction list \<Rightarrow> 'n database \<Rightarrow> (error + unit) \<times> 'n database" where
  "importLoop world n [] d = (Inr (), d)"
| "importLoop world n (t # ts) d =
     (case addTransaction (world n) t d of
        (Inl err, d') \<Rightarrow> (Inl err, d')
      | (Inr _, d') \<Rightarrow> importLoop world (Suc n) ts d')"

text \<open>
  importData: the first thing it does is to read \<open>data.transactions\<close>, which throws for
  \<open>null\<close> and \<open>undefined\<close>, before the test of the format.
\<close>

definition importData ::
  "(nat \<Rightarrow> env) \<Rightarrow> 'n jsdata \<Rightarrow> 'n database \<Rightarrow> (error + nat) \<times> 'n database" where
  "importData world data d =
     (case data of
        JNullish \<Rightarrow> (Inl TypeError, d)
      | JData object \<Rightarrow>
          if jsFalsy (b_transactions object) \<or> \<not> isArray (b_transactions object)
          then (Inl InvalidFormat, d)
          else case clearAll d of
                 (Inl err, d1) \<Rightarrow> (Inl err, d1)
               | (Inr _, d1) \<Rightarrow>
                   (case importLoop world 0 (elements (b_transactions object)) d1 of
                      (Inl err, d2) \<Rightarrow> (Inl err, d2)
                    | (Inr _, d2) \<Rightarrow> (Inr (length (elements (b_transactions object))), d2)))"

section \<open>Categories\<close>

text \<open>
  The store of categories has the unique index \<open>name\<close>: add and put fail with
  ConstraintError when another record (one with a different key) has the name.
\<close>

definition uniqueNameViolation :: "string list \<Rightarrow> category \<Rightarrow> category list \<Rightarrow> bool" where
  "uniqueNameViolation ixs v rs =
     (''name'' \<in> set ixs \<and> (\<exists>r\<in>set rs. c_id r \<noteq> c_id v \<and> c_name r = c_name v))"

definition cat_add :: "string list \<Rightarrow> category \<Rightarrow> category list \<Rightarrow> error + category list" where
  "cat_add ixs v rs =
     (case store_add c_id v rs of
        Inl err \<Rightarrow> Inl err
      | Inr rs' \<Rightarrow> if uniqueNameViolation ixs v rs then Inl ConstraintError else Inr rs')"

definition cat_put :: "string list \<Rightarrow> category \<Rightarrow> category list \<Rightarrow> error + category list" where
  "cat_put ixs v rs =
     (case store_put c_id v rs of
        Inl err \<Rightarrow> Inl err
      | Inr rs' \<Rightarrow> if uniqueNameViolation ixs v rs then Inl ConstraintError else Inr rs')"

definition mergeCategory :: "env \<Rightarrow> category \<Rightarrow> categoryUpdates \<Rightarrow> category" where
  "mergeCategory e c u =
     \<lparr> c_id = pickOpt (cu_id u) (c_id c),
       c_name = pick (cu_name u) (c_name c),
       c_type = pickOpt (cu_type u) (c_type c),
       c_color = pickOpt (cu_color u) (c_color c),
       c_icon = pickOpt (cu_icon u) (c_icon c),
       c_createdAt = pickOpt (cu_createdAt u) (c_createdAt c),
       c_updatedAt = Some (now e) \<rparr>"

definition updateCategory ::
  "env \<Rightarrow> string \<Rightarrow> categoryUpdates \<Rightarrow> 'n database \<Rightarrow> (error + category) \<times> 'n database" where
  "updateCategory e i updates d =
     (case catStore d of
        Inl err \<Rightarrow> (Inl err, d)
      | Inr ixs \<Rightarrow>
          (case store_get c_id i (categories d) of
             None \<Rightarrow> (Inl NotFound, d)
           | Some c \<Rightarrow>
               (let updated = mergeCategory e c updates in
                case cat_put ixs updated (categories d) of
                  Inl err \<Rightarrow> (Inl err, d)
                | Inr rs \<Rightarrow> (Inr updated, d\<lparr>categories := rs\<rparr>))))"

definition assignCategoryIdCreatedAt :: "env \<Rightarrow> category \<Rightarrow> category" where
  "assignCategoryIdCreatedAt e c =
     (let c1 = (if falsy (c_id c) then c\<lparr>c_id := Some (generateId e)\<rparr> else c)
      in if falsy (c_createdAt c1) then c1\<lparr>c_createdAt := Some (now e)\<rparr> else c1)"

text \<open>A category object given as the \<open>updates\<close> of updateCategory: the properties it has.\<close>

definition categoryAsUpdates :: "category \<Rightarrow> categoryUpdates" where
  "categoryAsUpdates c =
     \<lparr> cu_id = c_id c, cu_name = Some (c_name c), cu_type = c_type c,
       cu_color = c_color c, cu_icon = c_icon c, cu_createdAt = c_createdAt c \<rparr>"

text \<open>
  addCategory resolves with the id when \<open>store.add\<close> succeeds and with the result of
  updateCategory (the stored object) when it falls back; \<open>e\<close> is the outside world at the
  call and \<open>e'\<close> at the fallback.
\<close>

definition addCategory ::
  "env \<Rightarrow> env \<Rightarrow> category \<Rightarrow> 'n database \<Rightarrow> (error + (string + category)) \<times> 'n database" where
  "addCategory e e' category d =
     (if \<not> db d then (Inl NotInitialized, d)
      else
        (let c = assignCategoryIdCreatedAt e category in
         case catStore d of
           Inl err \<Rightarrow> (Inl err, d)
         | Inr ixs \<Rightarrow>
             (case cat_add ixs c (categories d) of
                Inr rs \<Rightarrow> (Inr (Inl (keyOf (c_id c))), d\<lparr>categories := rs\<rparr>)
              | Inl ConstraintError \<Rightarrow>
                  (case updateCategory e' (keyOf (c_id c)) (categoryAsUpdates c) d of
                     (Inl err, d') \<Rightarrow> (Inl err, d')
                   | (Inr updated, d') \<Rightarrow> (Inr (Inr updated), d'))
              | Inl err \<Rightarrow> (Inl err, d))))"



definition getCategory :: "'n database \<Rightarrow> string \<Rightarrow> error + category option" where
  "getCategory d i =
     (case catStore d of
        Inl err \<Rightarrow> Inl err
      | Inr _ \<Rightarrow> Inr (store_get c_id i (categories d)))"

definition getTransactionsByCategory :: "'n database \<Rightarrow> string \<Rightarrow> error + 'n transaction list" where
  "getTransactionsByCategory d categoryId =
     (case txStore d of
        Inl err \<Rightarrow> Inl err
      | Inr ixs \<Rightarrow>
          if ''category'' \<in> set ixs
          then Inr (index_getAll t_id t_category (\<lambda>v. v = categoryId) (transactions d))
          else Inr [])"

definition deleteCategory :: "string \<Rightarrow> 'n database \<Rightarrow> (error + bool) \<times> 'n database" where
  "deleteCategory i d =
     (if \<not> db d then (Inl NotInitialized, d)
      else case getTransactionsByCategory d i of
             Inl err \<Rightarrow> (Inl err, d)
           | Inr ts \<Rightarrow>
               if length ts > 0 then (Inl (CategoryInUse (length ts)), d)
               else (case catStore d of
                       Inl err \<Rightarrow> (Inl err, d)
                     | Inr _ \<Rightarrow> (Inr True, d\<lparr>categories := store_delete c_id i (categories d)\<rparr>)))"

section \<open>Notions used in the statements\<close>

text \<open>
  The sum of the amounts of a list of transactions as the engine computes it: starting
  from \<open>0\<close>, the \<open>parseFloat\<close> of each amount is added, in the order of the list.
\<close>

definition sumAmounts :: "'n numberOps \<Rightarrow> 'n transaction list \<Rightarrow> 'n" where
  "sumAmounts ops ts =
     foldl (\<lambda>acc t. num_add ops acc (parseFloat ops (t_amount t))) (num_zero ops) ts"

text \<open>
  The records that the loop of importData stores for the array \<open>ts\<close> when no add is
  rejected: the \<open>k\<close>-th element after the assignments of the \<open>k\<close>-th addTransaction.
\<close>

fun importedRecords :: "(nat \<Rightarrow> env) \<Rightarrow> nat \<Rightarrow> 'n transaction list \<Rightarrow> 'n transaction list" where
  "importedRecords world n [] = []"
| "importedRecords world n (t # ts) =
     assignIdCreatedAt (world n) t # importedRecords world (Suc n) ts"

text \<open>
  What the engine and addTransaction guarantee of the stored transactions: the keys are
  pairwise different, and every record has a non-empty id and a non-empty createdAt.
\<close>

definition storedByAdd :: "'n database \<Rightarrow> bool" where
  "storedByAdd d =
     (distinct (map t_id (transactions d)) \<and>
      list_all (\<lambda>t. \<not> falsy (t_id t) \<and> \<not> falsy (t_createdAt t)) (transactions d))"


section \<open>Example values\<close>

text \<open>The database that \<open>init\<close> creates on a device that has none.\<close>

definition noDb :: "'n database" where
  "noDb = \<lparr>db = False, version = 0, txIndexNames = None, catIndexNames = None,
           transactions = [], categories = []\<rparr>"

definition emptyDb :: "'n database" where
  "emptyDb = \<lparr>db = True, version = 2,
              txIndexNames = Some [''date'', ''type'', ''amount'', ''category''],
              catIndexNames = Some [''type'', ''name''],
              transactions = [], categories = []\<rparr>"

definition mkTransaction :: "string \<Rightarrow> string \<Rightarrow> 'n \<Rightarrow> string \<Rightarrow> 'n transaction" where
  "mkTransaction i ty a dt =
     \<lparr>t_id = Some i, t_type = ty, t_name = ''venta'', t_description = None, t_amount = a,
      t_date = dt, t_category = None, t_createdAt = Some ''2024-01-01T09:00:00.000Z'',
      t_updatedAt = None\<rparr>"

definition mkCategory :: "string \<Rightarrow> string \<Rightarrow> string \<Rightarrow> category" where
  "mkCategory i n ty =
     \<lparr>c_id = Some i, c_name = n, c_type = Some ty, c_color = None, c_icon = None,
      c_createdAt = Some ''2024-01-01T09:00:00.000Z'', c_updatedAt = None\<rparr>"

definition noUpdates :: "'n transactionUpdates" where
  "noUpdates = \<lparr>u_id = None, u_type = None, u_name = None, u_description = None,
                u_amount = None, u_date = None, u_category = None, u_createdAt = None\<rparr>"

definition env0 :: env where
  "env0 = \<lparr>now = ''2024-02-01T10:00:00.000Z'', generateId = ''lxk3a9f0q''\<rparr>"

definition incomeExpenseDb :: "int database" where
  "incomeExpenseDb =
     emptyDb\<lparr>transactions :=
       [mkTransaction ''a'' ''income'' 100 ''2024-01-01'',
        mkTransaction ''b'' ''expense'' 40 ''2023-12-31'']\<rparr>"

definition categoriesDb :: "int database" where
  "categoriesDb =
     emptyDb\<lparr>transactions :=
       [(mkTransaction ''a'' ''income'' 100 ''2024-01-01'')\<lparr>t_category := Some ''ventas''\<rparr>,
        mkTransaction ''b'' ''expense'' 40 ''2023-12-31''],
      categories :=
       [mkCategory ''ventas'' ''Ventas'' ''income'', mkCategory ''otros'' ''Otros'' ''both'']\<rparr>"

text \<open>A transaction as a form gives it, with neither id nor createdAt.\<close>

definition newTransaction :: "int transaction" where
  "newTransaction =
     \<lparr>t_id = None, t_type = ''expense'', t_name = ''repuestos'', t_description = Some ''filtro'',
      t_amount = 25, t_date = ''2024-01-15'', t_category = None, t_createdAt = None,
      t_updatedAt = None\<rparr>"

definition editedTransaction :: "int transaction" where
  "editedTransaction =
     (mkTransaction ''a'' ''income'' 100 ''2024-01-01'')
       \<lparr>t_updatedAt := Some ''2024-01-05T08:00:00.000Z''\<rparr>"

definition editedDb :: "int database" where
  "editedDb =
     emptyDb\<lparr>transactions :=
       [editedTransaction, mkTransaction ''b'' ''expense'' 40 ''2023-12-31'']\<rparr>"

text \<open>A transaction whose stored updatedAt is later than the clock of \<open>env0\<close>.\<close>

definition lateTransaction :: "int transaction" where
  "lateTransaction =
     (mkTransaction ''a'' ''income'' 100 ''2024-01-01'')
       \<lparr>t_updatedAt := Some ''2024-03-05T08:00:00.000Z''\<rparr>"

definition lateDb :: "int database" where
  "lateDb = emptyDb\<lparr>transactions := [lateTransaction]\<rparr>"

text \<open>A stored transaction whose type is neither income nor expense.\<close>

definition transferDb :: "int database" where
  "transferDb = emptyDb\<lparr>transactions := [mkTransaction ''t'' ''transfer'' 5 ''2024-01-10'']\<rparr>"

text \<open>
  The arithmetic of the examples: whole numbers, on which the operations of doubles are
  exact as long as the values stay below \<open>2^53\<close>, and \<open>parseFloat\<close> returns its argument.
\<close>

definition wholeNumbers :: "int numberOps" where
  "wholeNumbers = \<lparr>num_add = (+), num_sub = (-), num_zero = 0, parseFloat = (\<lambda>x. x)\<rparr>"

text \<open>
  An arithmetic of whole numbers that rounds as that of doubles does where a sum or a
  difference has a magnitude between \<open>2^53\<close> and \<open>2^54\<close>: there the doubles are the even
  numbers, and an odd result goes to the neighbour that is a multiple of 4.
\<close>

definition roundToDouble :: "int \<Rightarrow> int" where
  "roundToDouble x =
     (if \<bar>x\<bar> \<le> 2 ^ 53 \<or> even x then x else if x mod 4 = 1 then x - 1 else x + 1)"

definition roundingNumbers :: "int numberOps" where
  "roundingNumbers =
     \<lparr>num_add = (\<lambda>a b. roundToDouble (a + b)), num_sub = (\<lambda>a b. roundToDouble (a - b)),
      num_zero = 0, parseFloat = (\<lambda>x. x)\<rparr>"

definition bigDb :: "int database" where
  "bigDb =
     emptyDb\<lparr>transactions :=
       [mkTransaction ''a'' ''income'' 9007199254740992 ''2024-01-01'',
        mkTransaction ''b'' ''income'' 1 ''2023-12-31'']\<rparr>"

text \<open>The values of the dates of the examples, in days since 1970-01-01.\<close>

definition dateValue0 :: "string \<Rightarrow> int option" where
  "dateValue0 s =
     (if s = ''2023-12-31'' then Some 19722
      else if s = ''2024-01-01'' then Some 19723
      else if s = ''2024-01-10'' then Some 19732
      else if s = ''2024-01-15'' then Some 19737
      else None)"

definition rank0 :: "int transaction \<Rightarrow> nat" where
  "rank0 t = 0"



definition world0 :: "nat \<Rightarrow> env" where
  "world0 n = env0"


section \<open>Properties of the storage engine and of the sort\<close>

lemma mset_insertBy: "mset (insertBy cmp x xs) = add_mset x (mset xs)"
  by (induction xs) auto

lemma mset_sortBy: "mset (sortBy cmp xs) = mset xs"
  unfolding sortBy_def by (induction xs) (auto simp: mset_insertBy)

lemma mset_store_getAll: "mset (store_getAll key rs) = mset rs"
  by (simp add: store_getAll_def)

lemma mset_sortByDateDesc: "mset (sortByDateDesc dateValue engineRank ts) = mset ts"
  by (simp add: sortByDateDesc_def mset_sortBy)

lemma txStore_update [simp]:
  "txStore (d\<lparr>transactions := ts\<rparr>) = txStore d"
  "txStore (d\<lparr>categories := cs\<rparr>) = txStore d"
  by (simp_all add: txStore_def)

lemma catStore_update [simp]:
  "catStore (d\<lparr>transactions := ts\<rparr>) = catStore d"
  "catStore (d\<lparr>categories := cs\<rparr>) = catStore d"
  by (simp_all add: catStore_def)

lemma initialized_update [simp]:
  "initialized (d\<lparr>transactions := ts\<rparr>) = initialized d"
  "initialized (d\<lparr>categories := cs\<rparr>) = initialized d"
  by (simp_all add: initialized_def)

lemma find_append_iff:
  "find P (xs @ ys) = (case find P xs of None \<Rightarrow> find P ys | Some x \<Rightarrow> Some x)"
  by (induction xs) auto

lemma find_filter_None: "(\<And>x. P x \<Longrightarrow> \<not> Q x) \<Longrightarrow> find P (filter Q xs) = None"
  by (induction xs) auto

lemma find_filter_same: "(\<And>x. P x \<Longrightarrow> Q x) \<Longrightarrow> find P (filter Q xs) = find P xs"
  by (induction xs) auto

lemma find_None_key: "Some k \<notin> set (map key rs) \<Longrightarrow> find (\<lambda>r. key r = Some k) rs = None"
  by (induction rs) auto

lemma store_get_put_same:
  "key v = Some k \<Longrightarrow> store_put key v rs = Inr rs' \<Longrightarrow> store_get key k rs' = Some v"
  by (auto simp: store_put_def store_get_def find_append_iff find_filter_None)

lemma store_get_put_other:
  "key v = Some k \<Longrightarrow> j \<noteq> k \<Longrightarrow> store_put key v rs = Inr rs' \<Longrightarrow>
     store_get key j rs' = store_get key j rs"
proof -
  assume k: "key v = Some k" and j: "j \<noteq> k" and p: "store_put key v rs = Inr rs'"
  have "find (\<lambda>r. key r = Some j) (filter (\<lambda>r. key r \<noteq> Some k) rs) =
        find (\<lambda>r. key r = Some j) rs"
    using j by (intro find_filter_same) auto
  then show ?thesis
    using k j p
    by (auto simp: store_put_def store_get_def find_append_iff split: option.splits)
qed

lemma store_get_add_same:
  "key v = Some k \<Longrightarrow> store_add key v rs = Inr rs' \<Longrightarrow> store_get key k rs' = Some v"
  by (auto simp: store_add_def store_get_def find_append_iff find_None_key split: if_splits)

lemma store_get_key: "store_get key k rs = Some r \<Longrightarrow> key r = Some k \<and> r \<in> set rs"
  unfolding store_get_def by (induction rs) (auto split: if_splits)

lemma store_delete_absent:
  "Some k \<notin> set (map key rs) \<Longrightarrow> store_delete key k rs = rs"
  unfolding store_delete_def by (induction rs) auto

lemma length_index_getAll:
  "length (index_getAll key prop query rs) =
     length (filter (\<lambda>r. case prop r of None \<Rightarrow> False | Some v \<Rightarrow> query v) rs)"
  by (simp add: index_getAll_def store_getAll_def)

lemma mset_index_getAll:
  "mset (index_getAll key prop query rs) =
     mset (filter (\<lambda>r. case prop r of None \<Rightarrow> False | Some v \<Rightarrow> query v) rs)"
  by (simp add: index_getAll_def store_getAll_def)

lemma category_query: "(case c of None \<Rightarrow> False | Some v \<Rightarrow> v = i) = (c = Some i)"
  by (cases c) auto


lemma txStore_initialized:
  "initialized d \<Longrightarrow>
     \<exists>ixs. txStore d = Inr ixs \<and> ''date'' \<in> set ixs \<and> ''type'' \<in> set ixs \<and> ''category'' \<in> set ixs"
  by (auto simp: initialized_def txStore_def split: option.splits)

lemma catStore_initialized:
  "initialized d \<Longrightarrow> \<exists>ixs. catStore d = Inr ixs \<and> ''type'' \<in> set ixs \<and> ''name'' \<in> set ixs"
  by (auto simp: initialized_def catStore_def split: option.splits)

lemma init_noDb: "init noDb = Inr emptyDb"
  by (simp add: init_def noDb_def emptyDb_def onupgradeneeded_def dbVersion_def)

lemma initialized_emptyDb: "initialized emptyDb"
  by (simp add: initialized_def emptyDb_def)

text \<open>
  A database of version 1, whose store of transactions has the indexes date, type and
  amount, is upgraded in place: the records stay, and the result is initialized.
\<close>

lemma init_version1:
  assumes "version d = 1" and "txIndexNames d = Some [''date'', ''type'', ''amount'']"
    and "catIndexNames d = None"
  shows "\<exists>d'. init d = Inr d' \<and> initialized d' \<and> transactions d' = transactions d"
  using assms
  by (simp add: init_def dbVersion_def onupgradeneeded_def initialized_def)

section \<open>Statistics: the sums of getStats\<close>

lemma foldl_addToStats_income:
  "totalIncome (foldl (addToStats ops) s ts) =
     foldl (\<lambda>acc t. num_add ops acc (parseFloat ops (t_amount t))) (totalIncome s)
       (filter (\<lambda>t. t_type t = ''income'') ts)"
  by (induction ts arbitrary: s) (auto simp: addToStats_def)

lemma foldl_addToStats_expense:
  "totalExpense (foldl (addToStats ops) s ts) =
     foldl (\<lambda>acc t. num_add ops acc (parseFloat ops (t_amount t))) (totalExpense s)
       (filter (\<lambda>t. t_type t \<noteq> ''income'') ts)"
  by (induction ts arbitrary: s) (auto simp: addToStats_def)

lemma foldl_addToStats_count: "count (foldl (addToStats ops) s ts) = count s"
  by (induction ts arbitrary: s) (auto simp: addToStats_def)

text \<open>With the arithmetic of the examples the sum of the engine is the sum of the amounts.\<close>

lemma sumAmounts_wholeNumbers: "sumAmounts wholeNumbers ts = sum_list (map t_amount ts)"
proof -
  have "foldl (\<lambda>acc t. acc + t_amount t) a ts = a + sum_list (map t_amount ts)"
    for a :: int and ts :: "int transaction list"
    by (induction ts arbitrary: a) auto
  then show ?thesis
    by (simp add: sumAmounts_def wholeNumbers_def)
qed

text \<open>
  C1 (as amended). On an initialized store getStats scans the list \<open>ts\<close> that
  getAllTransactions returns, which holds the stored transactions, each once. It returns
  as totalIncome the sum, in the arithmetic of the engine and in the order of \<open>ts\<close>, of
  the amounts of the transactions of type income; as totalExpense that sum over all
  the other transactions, whatever their type (the \<open>else\<close> branch); as balance the
  difference of the two in the arithmetic of the engine; as count the number of stored
  transactions.
\<close>

theorem getStats_sums:
  assumes "initialized d"
  shows "\<exists>ts s. getAllTransactions dateValue engineRank d = Inr ts \<and>
    mset ts = mset (transactions d) \<and>
    getStats ops dateValue engineRank d = Inr s \<and>
    totalIncome s = sumAmounts ops (filter (\<lambda>t. t_type t = ''income'') ts) \<and>
    totalExpense s = sumAmounts ops (filter (\<lambda>t. t_type t \<noteq> ''income'') ts) \<and>
    balance s = num_sub ops (totalIncome s) (totalExpense s) \<and>
    count s = length (transactions d)"
proof -
  obtain ixs where st: "txStore d = Inr ixs"
    using txStore_initialized [OF assms] by blast
  define ts where
    "ts = sortByDateDesc dateValue engineRank (store_getAll t_id (transactions d))"
  have all: "getAllTransactions dateValue engineRank d = Inr ts"
    by (simp add: getAllTransactions_def st ts_def)
  have perm: "mset ts = mset (transactions d)"
    by (simp add: ts_def mset_sortByDateDesc mset_store_getAll)
  have len: "length ts = length (transactions d)"
    using perm by (rule mset_eq_length)
  define s0 where
    "s0 = \<lparr>totalIncome = num_zero ops, totalExpense = num_zero ops,
            balance = num_zero ops, count = length ts\<rparr>"
  define s1 where "s1 = foldl (addToStats ops) s0 ts"
  define s where "s = s1\<lparr>balance := num_sub ops (totalIncome s1) (totalExpense s1)\<rparr>"
  have res: "getStats ops dateValue engineRank d = Inr s"
    by (simp add: getStats_def all s_def s1_def s0_def Let_def)
  have inc: "totalIncome s = sumAmounts ops (filter (\<lambda>t. t_type t = ''income'') ts)"
    by (simp add: s_def s1_def foldl_addToStats_income s0_def sumAmounts_def)
  have exp: "totalExpense s = sumAmounts ops (filter (\<lambda>t. t_type t \<noteq> ''income'') ts)"
    by (simp add: s_def s1_def foldl_addToStats_expense s0_def sumAmounts_def)
  have bal: "balance s = num_sub ops (totalIncome s) (totalExpense s)"
    by (simp add: s_def)
  have cnt: "count s = length (transactions d)"
    by (simp add: s_def s1_def foldl_addToStats_count s0_def len)
  show ?thesis
    using all perm res inc exp bal cnt by blast
qed

text \<open>
  The sums are those of the engine, not those of the reals: with an arithmetic that
  rounds as doubles do, the incomes \<open>2^53\<close> and 1 give the total \<open>2^53\<close>.
\<close>

lemma getStats_rounding_example:
  "getStats roundingNumbers dateValue0 rank0 bigDb =
     Inr \<lparr>totalIncome = 9007199254740992, totalExpense = 0,
          balance = 9007199254740992, count = 2\<rparr>"
  by (simp add: getStats_def getAllTransactions_def txStore_def bigDb_def emptyDb_def
      store_getAll_def sortByDateDesc_def sortBy_def compareDateDesc_def dateValue0_def
      mkTransaction_def keyOf_def addToStats_def roundingNumbers_def roundToDouble_def Let_def)

text \<open>
  The example of the specification: on the transactions \<open>[{income,100},{expense,40}]\<close>
  getStats yields \<open>{totalIncome: 100, totalExpense: 40, balance: 60, count: 2}\<close>.
\<close>

theorem getStats_sums_witness:
  "initialized incomeExpenseDb \<and>
   getStats wholeNumbers dateValue0 rank0 incomeExpenseDb =
     Inr \<lparr>totalIncome = 100, totalExpense = 40, balance = 60, count = 2\<rparr>"
proof -
  have i: "initialized incomeExpenseDb"
    by (simp add: incomeExpenseDb_def initialized_def emptyDb_def)
  have scan: "getAllTransactions dateValue0 rank0 incomeExpenseDb =
      Inr [mkTransaction ''a'' ''income'' 100 ''2024-01-01'',
           mkTransaction ''b'' ''expense'' 40 ''2023-12-31'']"
    by (simp add: getAllTransactions_def txStore_def incomeExpenseDb_def emptyDb_def
        store_getAll_def sortByDateDesc_def sortBy_def compareDateDesc_def dateValue0_def
        mkTransaction_def keyOf_def)
  obtain ts s where g: "getAllTransactions dateValue0 rank0 incomeExpenseDb = Inr ts"
    and r: "getStats wholeNumbers dateValue0 rank0 incomeExpenseDb = Inr s"
    and inc: "totalIncome s = sumAmounts wholeNumbers (filter (\<lambda>t. t_type t = ''income'') ts)"
    and exp: "totalExpense s = sumAmounts wholeNumbers (filter (\<lambda>t. t_type t \<noteq> ''income'') ts)"
    and bal: "balance s = num_sub wholeNumbers (totalIncome s) (totalExpense s)"
    and cnt: "count s = length (transactions incomeExpenseDb)"
    using getStats_sums [OF i, of dateValue0 rank0 wholeNumbers] by blast
  have ts: "ts = [mkTransaction ''a'' ''income'' 100 ''2024-01-01'',
                  mkTransaction ''b'' ''expense'' 40 ''2023-12-31'']"
    using g scan by simp
  have i100: "totalIncome s = 100"
    by (simp add: inc ts sumAmounts_wholeNumbers mkTransaction_def)
  have e40: "totalExpense s = 40"
    by (simp add: exp ts sumAmounts_wholeNumbers mkTransaction_def)
  have b60: "balance s = 60"
    by (simp add: bal i100 e40 wholeNumbers_def)
  have c2: "count s = 2"
    by (simp add: cnt incomeExpenseDb_def)
  have "s = \<lparr>totalIncome = 100, totalExpense = 40, balance = 60, count = 2\<rparr>"
    using i100 e40 b60 c2 by (cases s) simp
  then show ?thesis using i r by simp
qed

text \<open>
  The claim as it was stated, with totalExpense the sum over the transactions of type
  expense, fails on a store that holds one transaction of type \<open>transfer\<close> and amount 5:
  no stored transaction has the type expense, and totalExpense is 5.
\<close>

theorem getStats_sums_counterexample:
  "getStats wholeNumbers dateValue0 rank0 transferDb =
     Inr \<lparr>totalIncome = 0, totalExpense = 5, balance = - 5, count = 1\<rparr> \<and>
   filter (\<lambda>t. t_type t = ''expense'') (transactions transferDb) = [] \<and>
   sumAmounts wholeNumbers (filter (\<lambda>t. t_type t = ''expense'') (transactions transferDb)) \<noteq> 5"
  by (simp add: getStats_def getAllTransactions_def txStore_def transferDb_def emptyDb_def
      store_getAll_def sortByDateDesc_def sortBy_def dateValue0_def mkTransaction_def
      addToStats_def wholeNumbers_def sumAmounts_def Let_def)

section \<open>Transactions: add, get, update, delete, range query\<close>

lemma assign_id_Some: "\<exists>k. t_id (assignIdCreatedAt e T) = Some k"
  by (auto simp: assignIdCreatedAt_def falsy_def Let_def)

text \<open>
  C3. addTransaction on an initialized store. The record it hands to the store is the
  argument with the id replaced by a generated one when the argument has none (or an
  empty one), with createdAt replaced by the clock when it has none, and with every other
  property as given. When the id of that record is the key of a stored transaction, the
  add fails with the ConstraintError of the engine (DuplicateId) and the store is
  unchanged; otherwise it resolves with the id, and getTransaction of that id on the new
  store returns exactly that record.
\<close>

theorem addTransaction_then_get:
  assumes "initialized d"
  shows
    "t_id (assignIdCreatedAt e T) = (if falsy (t_id T) then Some (generateId e) else t_id T) \<and>
     t_createdAt (assignIdCreatedAt e T) =
       (if falsy (t_createdAt T) then Some (now e) else t_createdAt T) \<and>
     (assignIdCreatedAt e T)\<lparr>t_id := t_id T, t_createdAt := t_createdAt T\<rparr> = T \<and>
     (t_id (assignIdCreatedAt e T) \<in> set (map t_id (transactions d)) \<longrightarrow>
        addTransaction e T d = (Inl ConstraintError, d)) \<and>
     (t_id (assignIdCreatedAt e T) \<notin> set (map t_id (transactions d)) \<longrightarrow>
        (\<exists>i d'. t_id (assignIdCreatedAt e T) = Some i \<and>
           addTransaction e T d = (Inr i, d') \<and>
           getTransaction d' i = Inr (Some (assignIdCreatedAt e T))))"
proof -
  obtain ixs where st: "txStore d = Inr ixs"
    using txStore_initialized [OF assms] by blast
  obtain k where k: "t_id (assignIdCreatedAt e T) = Some k"
    using assign_id_Some by blast
  have a1: "t_id (assignIdCreatedAt e T) = (if falsy (t_id T) then Some (generateId e) else t_id T)"
    by (simp add: assignIdCreatedAt_def Let_def)
  have a2: "t_createdAt (assignIdCreatedAt e T) =
       (if falsy (t_createdAt T) then Some (now e) else t_createdAt T)"
    by (simp add: assignIdCreatedAt_def Let_def)
  have a3: "(assignIdCreatedAt e T)\<lparr>t_id := t_id T, t_createdAt := t_createdAt T\<rparr> = T"
    by (simp add: assignIdCreatedAt_def Let_def)
  have dup: "addTransaction e T d = (Inl ConstraintError, d)"
    if "t_id (assignIdCreatedAt e T) \<in> set (map t_id (transactions d))"
    using that by (simp add: addTransaction_def st store_add_def k Let_def)
  have fresh: "\<exists>i d'. t_id (assignIdCreatedAt e T) = Some i \<and>
           addTransaction e T d = (Inr i, d') \<and>
           getTransaction d' i = Inr (Some (assignIdCreatedAt e T))"
    if nin: "t_id (assignIdCreatedAt e T) \<notin> set (map t_id (transactions d))"
  proof -
    define d' where "d' = d\<lparr>transactions := transactions d @ [assignIdCreatedAt e T]\<rparr>"
    have add: "store_add t_id (assignIdCreatedAt e T) (transactions d) =
        Inr (transactions d @ [assignIdCreatedAt e T])"
      using nin by (simp add: store_add_def k)
    have r: "addTransaction e T d = (Inr k, d')"
      by (simp add: addTransaction_def st add k Let_def keyOf_def d'_def)
    have st': "txStore d' = Inr ixs"
      using st by (simp add: d'_def)
    have "store_get t_id k (transactions d') = Some (assignIdCreatedAt e T)"
      using store_get_add_same [OF k add] by (simp add: d'_def)
    then have "getTransaction d' k = Inr (Some (assignIdCreatedAt e T))"
      by (simp add: getTransaction_def st')
    then show ?thesis using k r by blast
  qed
  show ?thesis
    using a1 a2 a3 dup fresh by blast
qed

text \<open>
  An add with the id of a stored transaction is rejected; a new transaction without id and
  createdAt is stored with both assigned and read back.
\<close>

theorem addTransaction_then_get_witness:
  "initialized incomeExpenseDb \<and>
   addTransaction env0 (mkTransaction ''a'' ''income'' 7 ''2024-03-01'') incomeExpenseDb =
     (Inl ConstraintError, incomeExpenseDb) \<and>
   (\<exists>d'. addTransaction env0 newTransaction incomeExpenseDb = (Inr ''lxk3a9f0q'', d') \<and>
      getTransaction d' ''lxk3a9f0q'' =
        Inr (Some (newTransaction\<lparr>t_id := Some ''lxk3a9f0q'',
                                  t_createdAt := Some ''2024-02-01T10:00:00.000Z''\<rparr>)))"
proof -
  have i: "initialized incomeExpenseDb"
    by (simp add: incomeExpenseDb_def initialized_def emptyDb_def)
  have dup: "addTransaction env0 (mkTransaction ''a'' ''income'' 7 ''2024-03-01'') incomeExpenseDb =
     (Inl ConstraintError, incomeExpenseDb)"
    using addTransaction_then_get [OF i, of env0 "mkTransaction ''a'' ''income'' 7 ''2024-03-01''"]
    by (simp add: assignIdCreatedAt_def falsy_def mkTransaction_def incomeExpenseDb_def)
  have new: "assignIdCreatedAt env0 newTransaction =
      newTransaction\<lparr>t_id := Some ''lxk3a9f0q'', t_createdAt := Some ''2024-02-01T10:00:00.000Z''\<rparr>"
    by (simp add: assignIdCreatedAt_def falsy_def newTransaction_def env0_def)
  have "\<exists>d'. addTransaction env0 newTransaction incomeExpenseDb = (Inr ''lxk3a9f0q'', d') \<and>
      getTransaction d' ''lxk3a9f0q'' =
        Inr (Some (newTransaction\<lparr>t_id := Some ''lxk3a9f0q'',
                                  t_createdAt := Some ''2024-02-01T10:00:00.000Z''\<rparr>))"
  proof -
    have nin: "t_id (assignIdCreatedAt env0 newTransaction) \<notin>
        set (map t_id (transactions incomeExpenseDb))"
      by (simp add: new incomeExpenseDb_def mkTransaction_def)
    obtain k d' where k: "t_id (assignIdCreatedAt env0 newTransaction) = Some k"
      and r: "addTransaction env0 newTransaction incomeExpenseDb = (Inr k, d')"
      and g: "getTransaction d' k = Inr (Some (assignIdCreatedAt env0 newTransaction))"
      using addTransaction_then_get [OF i, of env0 newTransaction] nin by blast
    have "k = ''lxk3a9f0q''"
      using k by (simp add: new)
    then show ?thesis
      using r g by (simp add: new)
  qed
  then show ?thesis using i dup by simp
qed

lemma merge_amount:
  "mergeTransaction e t (noUpdates\<lparr>u_amount := Some X\<rparr>) =
     t\<lparr>t_amount := X, t_updatedAt := Some (now e)\<rparr>"
  by (simp add: mergeTransaction_def noUpdates_def pick_def pickOpt_def)

text \<open>
  C4 (as amended). updateTransaction on an initialized store with the updates
  \<open>{amount: X}\<close>. For a stored transaction of the given id it resolves with, and stores
  under the same id, the old record with amount \<open>X\<close> and with updatedAt the reading of
  the clock at the call, every other property as before; the transactions of other ids
  and the categories stay as they were. The stamp is not compared with the previous one.
  For an id that is not stored it fails with NotFound, whatever the updates, and changes
  nothing.
\<close>

theorem updateTransaction_amount:
  assumes "initialized d"
  shows
    "(\<forall>t. store_get t_id i (transactions d) = Some t \<longrightarrow>
        (\<exists>d'. updateTransaction e i (noUpdates\<lparr>u_amount := Some X\<rparr>) d =
                 (Inr (t\<lparr>t_amount := X, t_updatedAt := Some (now e)\<rparr>), d') \<and>
              getTransaction d' i = Inr (Some (t\<lparr>t_amount := X, t_updatedAt := Some (now e)\<rparr>)) \<and>
              (\<forall>j. j \<noteq> i \<longrightarrow> getTransaction d' j = getTransaction d j) \<and>
              categories d' = categories d)) \<and>
     (store_get t_id i (transactions d) = None \<longrightarrow>
        updateTransaction e i updates d = (Inl NotFound, d))"
proof -
  obtain ixs where st: "txStore d = Inr ixs"
    using txStore_initialized [OF assms] by blast
  have absent: "updateTransaction e i updates d = (Inl NotFound, d)"
    if "store_get t_id i (transactions d) = None"
    using that by (simp add: updateTransaction_def st)
  have present: "\<exists>d'. updateTransaction e i (noUpdates\<lparr>u_amount := Some X\<rparr>) d =
                 (Inr (t\<lparr>t_amount := X, t_updatedAt := Some (now e)\<rparr>), d') \<and>
              getTransaction d' i = Inr (Some (t\<lparr>t_amount := X, t_updatedAt := Some (now e)\<rparr>)) \<and>
              (\<forall>j. j \<noteq> i \<longrightarrow> getTransaction d' j = getTransaction d j) \<and>
              categories d' = categories d"
    if g: "store_get t_id i (transactions d) = Some t" for t
  proof -
    define t' where "t' = t\<lparr>t_amount := X, t_updatedAt := Some (now e)\<rparr>"
    have key: "t_id t = Some i"
      using store_get_key [OF g] by simp
    then have key': "t_id t' = Some i"
      by (simp add: t'_def)
    define rs where "rs = filter (\<lambda>r. t_id r \<noteq> Some i) (transactions d) @ [t']"
    have put: "store_put t_id t' (transactions d) = Inr rs"
      by (simp add: store_put_def key' rs_def)
    define d' where "d' = d\<lparr>transactions := rs\<rparr>"
    have r: "updateTransaction e i (noUpdates\<lparr>u_amount := Some X\<rparr>) d = (Inr t', d')"
      by (simp add: updateTransaction_def st g merge_amount t'_def [symmetric] put d'_def)
    have same: "getTransaction d' i = Inr (Some t')"
      using store_get_put_same [OF key' put] by (simp add: getTransaction_def st d'_def)
    have other: "getTransaction d' j = getTransaction d j" if "j \<noteq> i" for j
      using store_get_put_other [OF key' that put]
      by (simp add: getTransaction_def st d'_def)
    have cats: "categories d' = categories d"
      by (simp add: d'_def)
    show ?thesis
      using r same other cats unfolding t'_def by blast
  qed
  show ?thesis
    using absent present by blast
qed

text \<open>
  The amount of the stored transaction \<open>a\<close> is set to 120 on 1 February; an update of an
  id that is not stored fails.
\<close>

theorem updateTransaction_amount_witness:
  "initialized editedDb \<and>
   store_get t_id ''a'' (transactions editedDb) = Some editedTransaction \<and>
   (\<exists>d'. updateTransaction env0 ''a'' (noUpdates\<lparr>u_amount := Some 120\<rparr>) editedDb =
            (Inr (editedTransaction\<lparr>t_amount := 120,
                                    t_updatedAt := Some ''2024-02-01T10:00:00.000Z''\<rparr>), d') \<and>
          getTransaction d' ''b'' = getTransaction editedDb ''b'') \<and>
   store_get t_id ''zz'' (transactions editedDb) = None \<and>
   updateTransaction env0 ''zz'' noUpdates editedDb = (Inl NotFound, editedDb)"
proof -
  have i: "initialized editedDb"
    by (simp add: editedDb_def initialized_def emptyDb_def)
  have g: "store_get t_id ''a'' (transactions editedDb) = Some editedTransaction"
    by (simp add: editedDb_def store_get_def editedTransaction_def mkTransaction_def)
  have z: "store_get t_id ''zz'' (transactions editedDb) = None"
    by (simp add: editedDb_def store_get_def editedTransaction_def mkTransaction_def)
  note inst = updateTransaction_amount [OF i, of "''a''" env0 120]
  obtain d' where
      r: "updateTransaction env0 ''a'' (noUpdates\<lparr>u_amount := Some 120\<rparr>) editedDb =
            (Inr (editedTransaction\<lparr>t_amount := 120, t_updatedAt := Some (now env0)\<rparr>), d')"
    and o: "\<forall>j. j \<noteq> ''a'' \<longrightarrow> getTransaction d' j = getTransaction editedDb j"
    using inst g by blast
  have o': "getTransaction d' ''b'' = getTransaction editedDb ''b''"
    using o by simp
  have nf: "updateTransaction env0 ''zz'' noUpdates editedDb = (Inl NotFound, editedDb)"
    using updateTransaction_amount [OF i, of "''zz''" env0 0 noUpdates] z by blast
  have n: "now env0 = ''2024-02-01T10:00:00.000Z''"
    by (simp add: env0_def)
  show ?thesis
    using i g r o' z nf unfolding n by blast
qed

text \<open>
  The claim as it was stated, with updatedAt never below the previous one, fails on a
  stored transaction whose updatedAt (5 March) is later than the clock at the update
  (1 February), as after a restore of such a record or a correction of the clock: the
  stamp goes back.
\<close>

theorem updateTransaction_amount_counterexample:
  "updateTransaction env0 ''a'' (noUpdates\<lparr>u_amount := Some 120\<rparr>) lateDb =
     (Inr (lateTransaction\<lparr>t_amount := 120,
                            t_updatedAt := Some ''2024-02-01T10:00:00.000Z''\<rparr>),
      lateDb\<lparr>transactions :=
        [lateTransaction\<lparr>t_amount := 120,
                          t_updatedAt := Some ''2024-02-01T10:00:00.000Z''\<rparr>]\<rparr>) \<and>
   t_updatedAt lateTransaction = Some ''2024-03-05T08:00:00.000Z'' \<and>
   \<not> ''2024-03-05T08:00:00.000Z'' \<le> ''2024-02-01T10:00:00.000Z''"
  by (simp add: updateTransaction_def txStore_def lateDb_def emptyDb_def store_get_def
      lateTransaction_def mkTransaction_def mergeTransaction_def noUpdates_def pick_def
      pickOpt_def store_put_def env0_def Let_def)

text \<open>
  C9. deleteTransaction of an id that is not the key of a stored transaction, on an
  initialized store, resolves \<open>true\<close> and leaves the whole store as it was.
\<close>

theorem deleteTransaction_absent:
  assumes "initialized d" and "Some i \<notin> set (map t_id (transactions d))"
  shows "deleteTransaction i d = (Inr True, d)"
proof -
  obtain ixs where st: "txStore d = Inr ixs"
    using txStore_initialized [OF assms(1)] by blast
  have "store_delete t_id i (transactions d) = transactions d"
    using assms(2) by (rule store_delete_absent)
  then show ?thesis
    by (simp add: deleteTransaction_def st)
qed

text \<open>No stored transaction has the id \<open>zz\<close>.\<close>

theorem deleteTransaction_absent_witness:
  "initialized incomeExpenseDb \<and>
   Some ''zz'' \<notin> set (map t_id (transactions incomeExpenseDb)) \<and>
   deleteTransaction ''zz'' incomeExpenseDb = (Inr True, incomeExpenseDb)"
proof -
  have i: "initialized incomeExpenseDb"
    by (simp add: incomeExpenseDb_def initialized_def emptyDb_def)
  have a: "Some ''zz'' \<notin> set (map t_id (transactions incomeExpenseDb))"
    by (simp add: incomeExpenseDb_def mkTransaction_def)
  show ?thesis
    using i a deleteTransaction_absent [OF i a] by simp
qed

text \<open>
  C7. getTransactionsByDateRange on an initialized store, for \<open>startDate \<le> endDate\<close>,
  resolves with exactly the stored transactions whose date is at least \<open>startDate\<close> and at
  most \<open>endDate\<close>, each as often as it is stored: both bounds are included, and a date below
  the first or above the second is excluded. Dates are compared as strings, which for ISO
  dates is the order of the calendar.
\<close>

theorem getTransactionsByDateRange_inclusive:
  assumes "initialized d" and "startDate \<le> endDate"
  shows "\<exists>ts. getTransactionsByDateRange d startDate endDate = Inr ts \<and>
     mset ts =
       mset (filter (\<lambda>t. startDate \<le> t_date t \<and> t_date t \<le> endDate) (transactions d)) \<and>
     (\<forall>t. t \<in> set ts \<longleftrightarrow>
        t \<in> set (transactions d) \<and> startDate \<le> t_date t \<and> t_date t \<le> endDate)"
proof -
  obtain ixs where st: "txStore d = Inr ixs" and ix: "''date'' \<in> set ixs"
    using txStore_initialized [OF assms(1)] by blast
  define ts where "ts = index_getAll t_id (\<lambda>t. Some (t_date t))
                      (\<lambda>v. startDate \<le> v \<and> v \<le> endDate) (transactions d)"
  have r: "getTransactionsByDateRange d startDate endDate = Inr ts"
    using assms(2) by (simp add: getTransactionsByDateRange_def st ix ts_def not_less)
  have m: "mset ts =
       mset (filter (\<lambda>t. startDate \<le> t_date t \<and> t_date t \<le> endDate) (transactions d))"
    by (simp add: ts_def mset_index_getAll)
  have "set ts = set (filter (\<lambda>t. startDate \<le> t_date t \<and> t_date t \<le> endDate) (transactions d))"
    using m by (rule mset_eq_setD)
  then have "\<forall>t. t \<in> set ts \<longleftrightarrow>
        t \<in> set (transactions d) \<and> startDate \<le> t_date t \<and> t_date t \<le> endDate"
    by auto
  then show ?thesis using r m by blast
qed

text \<open>
  The example of the specification: the range from 2024-01-01 to 2024-01-31 holds the
  transaction dated 2024-01-01 and not the stored one dated 2023-12-31.
\<close>

theorem getTransactionsByDateRange_inclusive_witness:
  "initialized incomeExpenseDb \<and> ''2024-01-01'' \<le> ''2024-01-31'' \<and>
   getTransactionsByDateRange incomeExpenseDb ''2024-01-01'' ''2024-01-31'' =
     Inr [mkTransaction ''a'' ''income'' 100 ''2024-01-01''] \<and>
   mkTransaction ''b'' ''expense'' 40 ''2023-12-31'' \<in> set (transactions incomeExpenseDb)"
proof -
  have i: "initialized incomeExpenseDb"
    by (simp add: incomeExpenseDb_def initialized_def emptyDb_def)
  have le: "''2024-01-01'' \<le> ''2024-01-31''"
    by simp
  obtain ts where r: "getTransactionsByDateRange incomeExpenseDb ''2024-01-01'' ''2024-01-31'' = Inr ts"
    and m: "mset ts = mset (filter (\<lambda>t. ''2024-01-01'' \<le> t_date t \<and> t_date t \<le> ''2024-01-31'')
                              (transactions incomeExpenseDb))"
    using getTransactionsByDateRange_inclusive [OF i le] by blast
  have "mset ts = {#mkTransaction ''a'' ''income'' 100 ''2024-01-01''#}"
    using m by (simp add: incomeExpenseDb_def mkTransaction_def)
  then have "ts = [mkTransaction ''a'' ''income'' 100 ''2024-01-01'']"
    by (metis mset_single_iff_right)
  then show ?thesis
    using i le r by (simp add: incomeExpenseDb_def)
qed

section \<open>Categories: deletion\<close>

text \<open>
  C2. deleteCategory on an initialized store fails with CategoryInUse, carrying the number
  of transactions whose category is the id, exactly when there is such a transaction, and
  then the store is unchanged; when there is none it resolves \<open>true\<close>, and the categories
  are those of another id.
\<close>

theorem deleteCategory_in_use:
  assumes "initialized d"
  shows "deleteCategory i d =
      (if \<exists>t\<in>set (transactions d). t_category t = Some i
       then (Inl (CategoryInUse (length (filter (\<lambda>t. t_category t = Some i) (transactions d)))), d)
       else (Inr True, d\<lparr>categories := filter (\<lambda>c. c_id c \<noteq> Some i) (categories d)\<rparr>)) \<and>
    ((\<exists>n. fst (deleteCategory i d) = Inl (CategoryInUse n)) \<longleftrightarrow>
       (\<exists>t\<in>set (transactions d). t_category t = Some i))"
proof -
  obtain ixs where st: "txStore d = Inr ixs" and ix: "''category'' \<in> set ixs"
    using txStore_initialized [OF assms] by blast
  obtain cxs where cs: "catStore d = Inr cxs"
    using catStore_initialized [OF assms] by blast
  have dbd: "db d" using assms by (simp add: initialized_def)
  define n where "n = length (filter (\<lambda>t. t_category t = Some i) (transactions d))"
  have by_cat: "getTransactionsByCategory d i =
      Inr (index_getAll t_id t_category (\<lambda>v. v = i) (transactions d))"
    by (simp add: getTransactionsByCategory_def st ix)
  have len: "length (index_getAll t_id t_category (\<lambda>v. v = i) (transactions d)) = n"
    by (simp add: length_index_getAll category_query n_def)
  have pos: "0 < n \<longleftrightarrow> (\<exists>t\<in>set (transactions d). t_category t = Some i)"
    by (auto simp: n_def length_greater_0_conv filter_empty_conv simp del: length_greater_0_conv)
  have eq: "deleteCategory i d =
      (if 0 < n then (Inl (CategoryInUse n), d)
       else (Inr True, d\<lparr>categories := filter (\<lambda>c. c_id c \<noteq> Some i) (categories d)\<rparr>))"
    by (simp add: deleteCategory_def dbd by_cat len cs store_delete_def)
  show ?thesis
    unfolding eq pos [symmetric] n_def [symmetric] by auto
qed

text \<open>
  One transaction uses the category \<open>ventas\<close>, none uses \<open>otros\<close>.
\<close>

theorem deleteCategory_in_use_witness:
  "initialized categoriesDb \<and>
   deleteCategory ''ventas'' categoriesDb = (Inl (CategoryInUse 1), categoriesDb) \<and>
   deleteCategory ''otros'' categoriesDb =
     (Inr True, categoriesDb\<lparr>categories := [mkCategory ''ventas'' ''Ventas'' ''income'']\<rparr>)"
proof -
  have i: "initialized categoriesDb"
    by (simp add: categoriesDb_def initialized_def emptyDb_def)
  have v: "deleteCategory ''ventas'' categoriesDb = (Inl (CategoryInUse 1), categoriesDb)"
    using deleteCategory_in_use [OF i, of "''ventas''"]
    by (simp add: categoriesDb_def mkTransaction_def)
  have "deleteCategory ''otros'' categoriesDb =
     (Inr True, categoriesDb\<lparr>categories := [mkCategory ''ventas'' ''Ventas'' ''income'']\<rparr>)"
    using deleteCategory_in_use [OF i, of "''otros''"]
    by (simp add: categoriesDb_def mkTransaction_def mkCategory_def)
  then show ?thesis using i v by simp
qed

section \<open>Backup and restore: importData and the round trip\<close>

lemma addTransaction_fresh:
  assumes "initialized d"
    and "t_id (assignIdCreatedAt e T) \<notin> set (map t_id (transactions d))"
  shows "addTransaction e T d =
     (Inr (keyOf (t_id (assignIdCreatedAt e T))),
      d\<lparr>transactions := transactions d @ [assignIdCreatedAt e T]\<rparr>)"
proof -
  obtain ixs where st: "txStore d = Inr ixs"
    using txStore_initialized [OF assms(1)] by blast
  obtain k where k: "t_id (assignIdCreatedAt e T) = Some k"
    using assign_id_Some by blast
  show ?thesis
    using assms(2) by (simp add: addTransaction_def st store_add_def k Let_def)
qed

lemma addTransaction_not_InvalidFormat: "fst (addTransaction e t d) \<noteq> Inl InvalidFormat"
  by (auto simp: addTransaction_def txStore_def store_add_def Let_def
      split: sum.splits option.splits if_splits)

lemma importLoop_not_InvalidFormat: "fst (importLoop w n ts d) \<noteq> Inl InvalidFormat"
proof (induction ts arbitrary: n d)
  case Nil
  show ?case by simp
next
  case (Cons t ts)
  obtain r d1 where a: "addTransaction (w n) t d = (r, d1)"
    by (cases "addTransaction (w n) t d")
  show ?case
  proof (cases r)
    case (Inl err)
    then have "err \<noteq> InvalidFormat"
      using addTransaction_not_InvalidFormat [of "w n" t d] a by auto
    then show ?thesis using a Inl by simp
  next
    case (Inr k)
    then show ?thesis using a Cons.IH by simp
  qed
qed

lemma clearAll_initialized:
  "initialized d \<Longrightarrow> clearAll d = (Inr True, d\<lparr>transactions := []\<rparr>)"
  using txStore_initialized [of d] by (auto simp: clearAll_def)

lemma clearAll_not_InvalidFormat: "fst (clearAll d) \<noteq> Inl InvalidFormat"
  by (auto simp: clearAll_def txStore_def split: sum.splits option.splits if_splits)

lemma importLoop_success:
  assumes "initialized d"
    and "distinct (map t_id (transactions d @ importedRecords w n ts))"
  shows "importLoop w n ts d =
     (Inr (), d\<lparr>transactions := transactions d @ importedRecords w n ts\<rparr>)"
  using assms
proof (induction ts arbitrary: n d)
  case Nil
  show ?case by simp
next
  case (Cons t ts)
  define t' where "t' = assignIdCreatedAt (w n) t"
  define d1 where "d1 = d\<lparr>transactions := transactions d @ [t']\<rparr>"
  have fresh: "t_id t' \<notin> set (map t_id (transactions d))"
    using Cons.prems(2) by (auto simp: t'_def)
  have a: "addTransaction (w n) t d = (Inr (keyOf (t_id t')), d1)"
    using addTransaction_fresh [OF Cons.prems(1)] fresh by (simp add: t'_def d1_def)
  have i1: "initialized d1"
    using Cons.prems(1) by (simp add: d1_def)
  have dist: "distinct (map t_id (transactions d1 @ importedRecords w (Suc n) ts))"
    using Cons.prems(2) by (simp add: d1_def t'_def)
  have "importLoop w (Suc n) ts d1 =
      (Inr (), d1\<lparr>transactions := transactions d1 @ importedRecords w (Suc n) ts\<rparr>)"
    using Cons.IH [OF i1 dist] .
  then show ?case
    using a by (simp add: d1_def t'_def)
qed

lemma importedRecords_stored:
  "list_all (\<lambda>t. \<not> falsy (t_id t) \<and> \<not> falsy (t_createdAt t)) ts \<Longrightarrow>
     importedRecords w n ts = ts"
  by (induction ts arbitrary: n) (auto simp: assignIdCreatedAt_def Let_def)

text \<open>
  The hypothesis \<open>storedByAdd\<close> holds of the empty store; addTransaction (with a
  generated id and a clock reading that are not empty), deleteTransaction, and
  updateTransaction with updates that hold no id and no empty createdAt keep it.
\<close>

lemma storedByAdd_emptyDb: "storedByAdd emptyDb"
  by (simp add: storedByAdd_def emptyDb_def)

lemma addTransaction_storedByAdd:
  assumes "storedByAdd d" and "generateId e \<noteq> []" and "now e \<noteq> []"
  shows "storedByAdd (snd (addTransaction e T d))"
proof (cases "fst (addTransaction e T d)")
  case (Inl err)
  then have "snd (addTransaction e T d) = d"
    by (auto simp: addTransaction_def Let_def split: sum.splits)
  then show ?thesis using assms(1) by simp
next
  case (Inr k)
  define t' where "t' = assignIdCreatedAt e T"
  have ok: "\<not> falsy (t_id t') \<and> \<not> falsy (t_createdAt t')"
    using assms(2,3) by (auto simp: t'_def assignIdCreatedAt_def Let_def falsy_def)
  have "snd (addTransaction e T d) = d\<lparr>transactions := transactions d @ [t']\<rparr> \<and>
        t_id t' \<notin> set (map t_id (transactions d))"
    using Inr
    by (auto simp: addTransaction_def Let_def store_add_def t'_def
        split: sum.splits option.splits if_splits)
  then show ?thesis
    using assms(1) ok by (auto simp: storedByAdd_def)
qed

lemma deleteTransaction_storedByAdd:
  assumes "storedByAdd d"
  shows "storedByAdd (snd (deleteTransaction i d))"
  using assms
  by (auto simp: deleteTransaction_def store_delete_def storedByAdd_def distinct_map_filter
      list_all_iff split: sum.splits)

lemma updateTransaction_storedByAdd:
  assumes "storedByAdd d" and "u_id u = None" and "u_createdAt u \<noteq> Some []"
  shows "storedByAdd (snd (updateTransaction e i u d))"
proof (cases "fst (updateTransaction e i u d)")
  case (Inl err)
  then have "snd (updateTransaction e i u d) = d"
    by (auto simp: updateTransaction_def Let_def split: sum.splits option.splits)
  then show ?thesis using assms(1) by simp
next
  case (Inr t')
  then obtain ixs t where st: "txStore d = Inr ixs"
    and g: "store_get t_id i (transactions d) = Some t"
    by (auto simp: updateTransaction_def Let_def split: sum.splits option.splits)
  have key: "t_id t = Some i" and mem: "t \<in> set (transactions d)"
    using store_get_key [OF g] by simp_all
  define m where "m = mergeTransaction e t u"
  have mk: "t_id m = Some i"
    using assms(2) key by (simp add: m_def mergeTransaction_def pickOpt_def)
  have told: "\<not> falsy (t_id t) \<and> \<not> falsy (t_createdAt t)"
    using assms(1) mem by (simp add: storedByAdd_def list_all_iff)
  have ok: "\<not> falsy (t_id m) \<and> \<not> falsy (t_createdAt m)"
    using told assms(2,3)
    by (cases "u_createdAt u") (auto simp: m_def mergeTransaction_def pickOpt_def falsy_def)
  have res: "snd (updateTransaction e i u d) =
      d\<lparr>transactions := filter (\<lambda>r. t_id r \<noteq> Some i) (transactions d) @ [m]\<rparr>"
    by (simp add: updateTransaction_def st g Let_def store_put_def mk m_def [symmetric])
  have d1: "distinct (map t_id (filter (\<lambda>r. t_id r \<noteq> Some i) (transactions d)))"
    using assms(1) by (simp add: storedByAdd_def distinct_map_filter)
  have d2: "Some i \<notin> set (map t_id (filter (\<lambda>r. t_id r \<noteq> Some i) (transactions d)))"
    by auto
  show ?thesis
    using assms(1) ok d1 d2 by (auto simp: res storedByAdd_def mk list_all_iff)
qed

text \<open>
  importData on an argument that has properties. It fails with InvalidFormat exactly
  when the property \<open>transactions\<close> is absent or is not an array, and then the store is
  unchanged. For an array, on an initialized store, the result is that of the loop of
  adds run on the store with all transactions removed; when the ids of the records to
  store are pairwise different, it resolves with the length of the array, and the store
  holds exactly those records, in the order of the array. Whenever it resolves, the
  number is the length of the array.
\<close>

lemma importData_object:
  "(fst (importData w (JData data) d) = Inl InvalidFormat \<longleftrightarrow>
      b_transactions data = JUndefined \<or> \<not> isArray (b_transactions data)) \<and>
   (b_transactions data = JUndefined \<or> \<not> isArray (b_transactions data) \<longrightarrow>
      importData w (JData data) d = (Inl InvalidFormat, d)) \<and>
   (\<forall>ts. initialized d \<and> b_transactions data = JArray ts \<longrightarrow>
      importData w (JData data) d =
        (case importLoop w 0 ts (d\<lparr>transactions := []\<rparr>) of
           (Inl err, d2) \<Rightarrow> (Inl err, d2)
         | (Inr u, d2) \<Rightarrow> (Inr (length ts), d2))) \<and>
   (\<forall>ts. initialized d \<and> b_transactions data = JArray ts \<and>
         distinct (map t_id (importedRecords w 0 ts)) \<longrightarrow>
      importData w (JData data) d = (Inr (length ts), d\<lparr>transactions := importedRecords w 0 ts\<rparr>)) \<and>
   (\<forall>n d'. importData w (JData data) d = (Inr n, d') \<longrightarrow>
      n = length (elements (b_transactions data)))"
proof -
  have inv: "importData w (JData data) d = (Inl InvalidFormat, d)"
    if "b_transactions data = JUndefined \<or> \<not> isArray (b_transactions data)"
    using that by (cases "b_transactions data") (auto simp: importData_def)
  have val: "fst (importData w (JData data) d) \<noteq> Inl InvalidFormat"
    if nv: "\<not> (b_transactions data = JUndefined \<or> \<not> isArray (b_transactions data))"
  proof -
    obtain ts where ts: "b_transactions data = JArray ts"
      using nv by (cases "b_transactions data") auto
    obtain r1 d1 where c: "clearAll d = (r1, d1)"
      by (cases "clearAll d")
    obtain r2 d2 where l: "importLoop w 0 ts d1 = (r2, d2)"
      by (cases "importLoop w 0 ts d1")
    have "r1 \<noteq> Inl InvalidFormat"
      using clearAll_not_InvalidFormat [of d] c by auto
    moreover have "r2 \<noteq> Inl InvalidFormat"
      using importLoop_not_InvalidFormat [of w 0 ts d1] l by auto
    ultimately show ?thesis
      by (auto simp: importData_def ts c l split: sum.splits)
  qed
  have iff: "fst (importData w (JData data) d) = Inl InvalidFormat \<longleftrightarrow>
      b_transactions data = JUndefined \<or> \<not> isArray (b_transactions data)"
    using inv val by (metis fst_conv)
  have seq: "importData w (JData data) d =
        (case importLoop w 0 ts (d\<lparr>transactions := []\<rparr>) of
           (Inl err, d2) \<Rightarrow> (Inl err, d2)
         | (Inr u, d2) \<Rightarrow> (Inr (length ts), d2))"
    if "initialized d \<and> b_transactions data = JArray ts" for ts
    using that
    by (auto simp: importData_def clearAll_initialized split: prod.splits sum.splits)
  have ok: "importData w (JData data) d = (Inr (length ts), d\<lparr>transactions := importedRecords w 0 ts\<rparr>)"
    if h: "initialized d \<and> b_transactions data = JArray ts \<and>
         distinct (map t_id (importedRecords w 0 ts))" for ts
  proof -
    have i0: "initialized (d\<lparr>transactions := []\<rparr>)"
      using h by simp
    have "importLoop w 0 ts (d\<lparr>transactions := []\<rparr>) =
        (Inr (), d\<lparr>transactions := importedRecords w 0 ts\<rparr>)"
      using importLoop_success [OF i0, of w 0 ts] h by simp
    then show ?thesis
      using seq [of ts] h by simp
  qed
  have cnt: "n = length (elements (b_transactions data))"
    if "importData w (JData data) d = (Inr n, d')" for n d'
    using that
    by (auto simp: importData_def split: if_splits sum.splits prod.splits)
  show ?thesis
    using iff inv seq ok cnt by blast
qed

text \<open>
  An argument without \<open>transactions\<close> and one where it is an object are rejected and leave
  the two stored transactions; an array of one new transaction replaces them.
\<close>

lemma importData_object_examples:
  "initialized incomeExpenseDb \<and>
   importData world0 (JData \<lparr>exportedAt = None, b_count = None, b_transactions = JUndefined\<rparr>)
       incomeExpenseDb = (Inl InvalidFormat, incomeExpenseDb) \<and>
   importData world0 (JData \<lparr>exportedAt = None, b_count = None, b_transactions = JObject\<rparr>)
       incomeExpenseDb = (Inl InvalidFormat, incomeExpenseDb) \<and>
   distinct (map t_id (importedRecords world0 0 [newTransaction])) \<and>
   importData world0
       (JData \<lparr>exportedAt = None, b_count = None, b_transactions = JArray [newTransaction]\<rparr>)
       incomeExpenseDb =
     (Inr 1, incomeExpenseDb\<lparr>transactions :=
        [newTransaction\<lparr>t_id := Some ''lxk3a9f0q'',
                         t_createdAt := Some ''2024-02-01T10:00:00.000Z''\<rparr>]\<rparr>)"
proof -
  have i: "initialized incomeExpenseDb"
    by (simp add: incomeExpenseDb_def initialized_def emptyDb_def)
  have u: "importData world0 (JData \<lparr>exportedAt = None, b_count = None, b_transactions = JUndefined\<rparr>)
       incomeExpenseDb = (Inl InvalidFormat, incomeExpenseDb)"
    using importData_object
      [of world0 "\<lparr>exportedAt = None, b_count = None, b_transactions = JUndefined\<rparr>" incomeExpenseDb]
    by simp
  have o: "importData world0 (JData \<lparr>exportedAt = None, b_count = None, b_transactions = JObject\<rparr>)
       incomeExpenseDb = (Inl InvalidFormat, incomeExpenseDb)"
    using importData_object
      [of world0 "\<lparr>exportedAt = None, b_count = None, b_transactions = JObject\<rparr>" incomeExpenseDb]
    by simp
  have rec: "importedRecords world0 0 [newTransaction] =
      [newTransaction\<lparr>t_id := Some ''lxk3a9f0q'',
                       t_createdAt := Some ''2024-02-01T10:00:00.000Z''\<rparr>]"
    by (simp add: world0_def assignIdCreatedAt_def falsy_def newTransaction_def env0_def)
  have dist: "distinct (map t_id (importedRecords world0 0 [newTransaction]))"
    by (simp add: rec)
  have "importData world0
       (JData \<lparr>exportedAt = None, b_count = None, b_transactions = JArray [newTransaction]\<rparr>)
       incomeExpenseDb =
     (Inr (length [newTransaction]),
      incomeExpenseDb\<lparr>transactions := importedRecords world0 0 [newTransaction]\<rparr>)"
  proof -
    let ?data = "\<lparr>exportedAt = None, b_count = None, b_transactions = JArray [newTransaction]\<rparr>"
    have b: "b_transactions ?data = JArray [newTransaction]"
      by simp
    show ?thesis
      using importData_object [of world0 ?data incomeExpenseDb] i dist b by blast
  qed
  then have "importData world0
       (JData \<lparr>exportedAt = None, b_count = None, b_transactions = JArray [newTransaction]\<rparr>)
       incomeExpenseDb =
     (Inr 1, incomeExpenseDb\<lparr>transactions :=
        [newTransaction\<lparr>t_id := Some ''lxk3a9f0q'',
                         t_createdAt := Some ''2024-02-01T10:00:00.000Z''\<rparr>]\<rparr>)"
    unfolding rec by simp
  then show ?thesis
    using i u o dist by blast
qed

text \<open>
  C5. For \<open>null\<close> (a backup file that holds \<open>null\<close>) and for \<open>undefined\<close>, where the
  property \<open>transactions\<close> is absent, importData does not fail with InvalidFormat: reading
  the property throws a TypeError before the test of the format. The store is unchanged.
\<close>

theorem importData_nullish:
  "importData world JNullish d = (Inl TypeError, d) \<and>
   fst (importData world JNullish d) \<noteq> Inl InvalidFormat"
  by (simp add: importData_def)

text \<open>
  C6. On an initialized store whose transactions are as addTransaction stores them (keys
  pairwise different, id and createdAt present and not empty), exportData succeeds, and
  importData of its result resolves with the number of stored transactions and leaves a
  store with the same multiset of transactions and the same categories.
\<close>

theorem export_import_roundtrip:
  assumes "initialized d" and "storedByAdd d"
  shows "\<exists>data d'. exportData dateValue engineRank e d = Inr data \<and>
     importData w (JData data) d = (Inr (length (transactions d)), d') \<and>
     mset (transactions d') = mset (transactions d) \<and>
     categories d' = categories d"
proof -
  obtain ixs where st: "txStore d = Inr ixs"
    using txStore_initialized [OF assms(1)] by blast
  define ts where
    "ts = sortByDateDesc dateValue engineRank (store_getAll t_id (transactions d))"
  define data where
    "data = \<lparr>exportedAt = Some (now e), b_count = Some (length ts), b_transactions = JArray ts\<rparr>"
  have ex: "exportData dateValue engineRank e d = Inr data"
    by (simp add: exportData_def getAllTransactions_def st ts_def data_def)
  have perm: "mset ts = mset (transactions d)"
    by (simp add: ts_def mset_sortByDateDesc mset_store_getAll)
  have len: "length ts = length (transactions d)"
    using perm by (rule mset_eq_length)
  have "set ts = set (transactions d)"
    using perm by (rule mset_eq_setD)
  then have "list_all (\<lambda>t. \<not> falsy (t_id t) \<and> \<not> falsy (t_createdAt t)) ts"
    using assms(2) by (simp add: storedByAdd_def list_all_iff)
  then have same: "importedRecords w 0 ts = ts"
    by (rule importedRecords_stored)
  have "mset (map t_id ts) = mset (map t_id (transactions d))"
    using perm by (metis mset_map)
  then have dist: "distinct (map t_id ts)"
    using assms(2) by (metis storedByAdd_def mset_eq_imp_distinct_iff)
  have i0: "initialized (d\<lparr>transactions := []\<rparr>)"
    using assms(1) by simp
  have loop: "importLoop w 0 ts (d\<lparr>transactions := []\<rparr>) = (Inr (), d\<lparr>transactions := ts\<rparr>)"
    using importLoop_success [OF i0, of w 0 ts] dist by (simp add: same)
  have im: "importData w (JData data) d = (Inr (length (transactions d)), d\<lparr>transactions := ts\<rparr>)"
    by (simp add: importData_def data_def clearAll_initialized [OF assms(1)] loop len)
  show ?thesis
    using ex im perm by auto
qed

text \<open>The round trip on the store of two transactions.\<close>

theorem export_import_roundtrip_witness:
  "initialized incomeExpenseDb \<and> storedByAdd incomeExpenseDb \<and>
   (\<exists>data d'. exportData dateValue0 rank0 env0 incomeExpenseDb = Inr data \<and>
      importData world0 (JData data) incomeExpenseDb = (Inr 2, d') \<and>
      mset (transactions d') = mset (transactions incomeExpenseDb))"
proof -
  have i: "initialized incomeExpenseDb"
    by (simp add: incomeExpenseDb_def initialized_def emptyDb_def)
  have s: "storedByAdd incomeExpenseDb"
    by (simp add: incomeExpenseDb_def storedByAdd_def mkTransaction_def falsy_def emptyDb_def)
  have l: "length (transactions incomeExpenseDb) = 2"
    by (simp add: incomeExpenseDb_def)
  show ?thesis
    using i s export_import_roundtrip [OF i s, of dateValue0 rank0 env0 world0]
    unfolding l by blast
qed

section \<open>Categories: listing by type\<close>









section \<open>Categories: adding a name that exists\<close>

lemma assign_category_id_Some: "\<exists>k. c_id (assignCategoryIdCreatedAt e c) = Some k"
  by (auto simp: assignCategoryIdCreatedAt_def falsy_def Let_def)

lemma assign_category_name: "c_name (assignCategoryIdCreatedAt e c) = c_name c"
  by (simp add: assignCategoryIdCreatedAt_def Let_def)

lemma store_get_present:
  "Some k \<in> set (map key rs) \<Longrightarrow> \<exists>r. store_get key k rs = Some r"
  unfolding store_get_def by (induction rs) auto

lemma store_get_absent:
  "Some k \<notin> set (map key rs) \<Longrightarrow> store_get key k rs = None"
  unfolding store_get_def by (rule find_None_key)

lemma store_get_distinct:
  "distinct (map key rs) \<Longrightarrow> r \<in> set rs \<Longrightarrow> key r = Some k \<Longrightarrow> store_get key k rs = Some r"
  unfolding store_get_def by (induction rs) (auto simp: rev_image_eqI)

lemma updateCategory_result:
  assumes "catStore d = Inr ixs" and "store_get c_id k (categories d) = Some f"
    and "c_id (mergeCategory e f u) = Some k"
  shows "updateCategory e k u d =
     (if uniqueNameViolation ixs (mergeCategory e f u) (categories d)
      then (Inl ConstraintError, d)
      else (Inr (mergeCategory e f u),
            d\<lparr>categories := filter (\<lambda>r. c_id r \<noteq> Some k) (categories d) @ [mergeCategory e f u]\<rparr>))"
  using assms by (simp add: updateCategory_def cat_put_def store_put_def Let_def)

text \<open>
  C8. addCategory, on an initialized store, of a category whose name is the name of a
  stored category; \<open>c\<close> is the argument after the assignment of id and createdAt. The add
  of the engine fails with ConstraintError, and addCategory falls back to updateCategory
  on the id of \<open>c\<close>. When a stored category of that name has another id, the operation
  fails and the store is unchanged: with ConstraintError when the id of \<open>c\<close> is stored
  (the put would give a second record the name), with NotFound when it is not. Otherwise
  the stored category \<open>f\<close> of the same id, which is the one that has the name, is replaced
  in place by the merge of \<open>f\<close> and \<open>c\<close>. In every case the categories of any other id and
  the transactions are as before.
\<close>

theorem addCategory_name_collision:
  fixes d :: "'n database" and e e' :: env and category :: category
  assumes "initialized d"
    and "\<exists>r\<in>set (categories d). c_name r = c_name category"
  defines "c \<equiv> assignCategoryIdCreatedAt e category"
  shows
    "((\<exists>r\<in>set (categories d). c_name r = c_name category \<and> c_id r \<noteq> c_id c) \<longrightarrow>
        addCategory e e' category d =
          (Inl (if c_id c \<in> set (map c_id (categories d)) then ConstraintError else NotFound), d)) \<and>
     (\<not> (\<exists>r\<in>set (categories d). c_name r = c_name category \<and> c_id r \<noteq> c_id c) \<longrightarrow>
        (\<exists>f. store_get c_id (keyOf (c_id c)) (categories d) = Some f \<and>
           c_id f = c_id c \<and>
           (distinct (map c_id (categories d)) \<longrightarrow> c_name f = c_name category) \<and>
           addCategory e e' category d =
             (Inr (Inr (mergeCategory e' f (categoryAsUpdates c))),
              d\<lparr>categories := filter (\<lambda>r. c_id r \<noteq> c_id c) (categories d) @
                                [mergeCategory e' f (categoryAsUpdates c)]\<rparr>))) \<and>
     (\<forall>j. j \<noteq> keyOf (c_id c) \<longrightarrow>
        getCategory (snd (addCategory e e' category d)) j = getCategory d j) \<and>
     transactions (snd (addCategory e e' category d)) = transactions d"
proof -
  obtain ixs where st: "catStore d = Inr ixs" and ix: "''name'' \<in> set ixs"
    using catStore_initialized [OF assms(1)] by blast
  have dbd: "db d"
    using assms(1) by (simp add: initialized_def)
  obtain k where k: "c_id c = Some k"
    unfolding c_def using assign_category_id_Some by blast
  have kk: "keyOf (c_id c) = k"
    by (simp add: k keyOf_def)
  have nm: "c_name c = c_name category"
    by (simp add: c_def assign_category_name)
  define other where
    "other \<longleftrightarrow> (\<exists>r\<in>set (categories d). c_name r = c_name category \<and> c_id r \<noteq> c_id c)"
  have viol: "uniqueNameViolation ixs v (categories d) \<longleftrightarrow> other"
    if "c_id v = Some k" and "c_name v = c_name category" for v
    using that ix by (auto simp: uniqueNameViolation_def other_def k)
  have fallback: "addCategory e e' category d =
      (case updateCategory e' k (categoryAsUpdates c) d of
         (Inl err, d') \<Rightarrow> (Inl err, d')
       | (Inr updated, d') \<Rightarrow> (Inr (Inr updated), d'))"
    if "cat_add ixs c (categories d) = Inl ConstraintError"
    using that by (simp add: addCategory_def dbd st c_def [symmetric] kk Let_def)
  have res: "addCategory e e' category d =
      (if other
       then (Inl (if c_id c \<in> set (map c_id (categories d)) then ConstraintError else NotFound), d)
       else (case store_get c_id k (categories d) of
               None \<Rightarrow> (Inl NotFound, d)
             | Some f \<Rightarrow>
                 (Inr (Inr (mergeCategory e' f (categoryAsUpdates c))),
                  d\<lparr>categories := filter (\<lambda>r. c_id r \<noteq> Some k) (categories d) @
                                    [mergeCategory e' f (categoryAsUpdates c)]\<rparr>)))"
  proof (cases "Some k \<in> set (map c_id (categories d))")
    case True
    then have add: "cat_add ixs c (categories d) = Inl ConstraintError"
      by (simp add: cat_add_def store_add_def k)
    obtain f where f: "store_get c_id k (categories d) = Some f"
      using store_get_present [OF True] by blast
    define m where "m = mergeCategory e' f (categoryAsUpdates c)"
    have mk: "c_id m = Some k"
      by (simp add: m_def mergeCategory_def categoryAsUpdates_def pickOpt_def k)
    have mn: "c_name m = c_name category"
      by (simp add: m_def mergeCategory_def categoryAsUpdates_def pick_def nm)
    have "updateCategory e' k (categoryAsUpdates c) d =
        (if other then (Inl ConstraintError, d)
         else (Inr m, d\<lparr>categories := filter (\<lambda>r. c_id r \<noteq> Some k) (categories d) @ [m]\<rparr>))"
      using updateCategory_result [OF st f, of e' "categoryAsUpdates c"] mk viol [OF mk mn]
      by (simp add: m_def)
    then show ?thesis
      using True by (simp add: fallback [OF add] f k m_def)
  next
    case False
    obtain r where r: "r \<in> set (categories d)" "c_name r = c_name category"
      using assms(2) by blast
    have "c_id r \<noteq> Some k"
      using False r(1) by (metis image_eqI set_map)
    then have o: other
      using r by (auto simp: other_def k)
    have "uniqueNameViolation ixs c (categories d)"
      using viol [OF k nm] o by simp
    then have add: "cat_add ixs c (categories d) = Inl ConstraintError"
      using False by (simp add: cat_add_def store_add_def k)
    have "updateCategory e' k (categoryAsUpdates c) d = (Inl NotFound, d)"
      using store_get_absent [OF False] by (simp add: updateCategory_def st)
    then show ?thesis
      using False o by (simp add: fallback [OF add] k)
  qed
  have p1: "addCategory e e' category d =
      (Inl (if c_id c \<in> set (map c_id (categories d)) then ConstraintError else NotFound), d)"
    if other
    using that by (simp add: res)
  have p2: "\<exists>f. store_get c_id (keyOf (c_id c)) (categories d) = Some f \<and>
           c_id f = c_id c \<and>
           (distinct (map c_id (categories d)) \<longrightarrow> c_name f = c_name category) \<and>
           addCategory e e' category d =
             (Inr (Inr (mergeCategory e' f (categoryAsUpdates c))),
              d\<lparr>categories := filter (\<lambda>r. c_id r \<noteq> c_id c) (categories d) @
                                [mergeCategory e' f (categoryAsUpdates c)]\<rparr>)"
    if no: "\<not> other"
  proof -
    obtain r where r: "r \<in> set (categories d)" "c_name r = c_name category"
      using assms(2) by blast
    have rk: "c_id r = Some k"
      using no r by (auto simp: other_def k)
    then have "Some k \<in> set (map c_id (categories d))"
      using r(1) by force
    then obtain f where f: "store_get c_id k (categories d) = Some f"
      using store_get_present by blast
    have fk: "c_id f = c_id c"
      using store_get_key [OF f] by (simp add: k)
    have fn: "c_name f = c_name category" if "distinct (map c_id (categories d))"
      using store_get_distinct [OF that r(1) rk] f r(2) by simp
    have a: "addCategory e e' category d =
             (Inr (Inr (mergeCategory e' f (categoryAsUpdates c))),
              d\<lparr>categories := filter (\<lambda>r. c_id r \<noteq> c_id c) (categories d) @
                                [mergeCategory e' f (categoryAsUpdates c)]\<rparr>)"
      using no by (simp add: res f k)
    show ?thesis
      using f [folded kk] fk fn a by blast
  qed
  have p3: "getCategory (snd (addCategory e e' category d)) j = getCategory d j"
    if j: "j \<noteq> keyOf (c_id c)" for j
  proof (cases "store_get c_id k (categories d)")
    case None
    then show ?thesis by (simp add: res)
  next
    case (Some f)
    define m where "m = mergeCategory e' f (categoryAsUpdates c)"
    have mk: "c_id m = Some k"
      by (simp add: m_def mergeCategory_def categoryAsUpdates_def pickOpt_def k)
    have put: "store_put c_id m (categories d) =
        Inr (filter (\<lambda>r. c_id r \<noteq> Some k) (categories d) @ [m])"
      by (simp add: store_put_def mk)
    have "store_get c_id j (filter (\<lambda>r. c_id r \<noteq> Some k) (categories d) @ [m]) =
          store_get c_id j (categories d)"
      using store_get_put_other [OF mk _ put, of j] j by (simp add: kk)
    then show ?thesis
      by (simp add: res Some m_def getCategory_def st)
  qed
  have p4: "transactions (snd (addCategory e e' category d)) = transactions d"
    by (simp add: res split: option.splits)
  show ?thesis
    using p1 p2 p3 p4 unfolding other_def by blast
qed

text \<open>
  On the store of the categories \<open>ventas\<close> (Ventas) and \<open>otros\<close> (Otros): adding the name
  Ventas under the new id \<open>v2\<close> fails with NotFound, under the id \<open>otros\<close> with
  ConstraintError, and under the id \<open>ventas\<close> updates that record.
\<close>

theorem addCategory_name_collision_witness:
  "initialized categoriesDb \<and>
   addCategory env0 env0 (mkCategory ''v2'' ''Ventas'' ''income'') categoriesDb =
     (Inl NotFound, categoriesDb) \<and>
   addCategory env0 env0 (mkCategory ''otros'' ''Ventas'' ''income'') categoriesDb =
     (Inl ConstraintError, categoriesDb) \<and>
   addCategory env0 env0 (mkCategory ''ventas'' ''Ventas'' ''expense'') categoriesDb =
     (Inr (Inr ((mkCategory ''ventas'' ''Ventas'' ''expense'')
                  \<lparr>c_updatedAt := Some ''2024-02-01T10:00:00.000Z''\<rparr>)),
      categoriesDb\<lparr>categories :=
        [mkCategory ''otros'' ''Otros'' ''both'',
         (mkCategory ''ventas'' ''Ventas'' ''expense'')
           \<lparr>c_updatedAt := Some ''2024-02-01T10:00:00.000Z''\<rparr>]\<rparr>)"
proof -
  have i: "initialized categoriesDb"
    by (simp add: categoriesDb_def initialized_def emptyDb_def)
  have coll: "\<exists>r\<in>set (categories categoriesDb). c_name r = c_name (mkCategory k ''Ventas'' ty)" for k ty
    by (simp add: categoriesDb_def mkCategory_def)
  have asg: "assignCategoryIdCreatedAt env0 (mkCategory k n ty) = mkCategory k n ty" if "k \<noteq> []" for k n ty
    using that by (simp add: assignCategoryIdCreatedAt_def falsy_def mkCategory_def)
  have a: "addCategory env0 env0 (mkCategory ''v2'' ''Ventas'' ''income'') categoriesDb =
     (Inl NotFound, categoriesDb)"
    using addCategory_name_collision [OF i coll, of "''v2''" "''income''" env0 env0, THEN conjunct1]
    by (simp add: asg) (simp add: categoriesDb_def mkCategory_def)
  have b: "addCategory env0 env0 (mkCategory ''otros'' ''Ventas'' ''income'') categoriesDb =
     (Inl ConstraintError, categoriesDb)"
    using addCategory_name_collision [OF i coll, of "''otros''" "''income''" env0 env0, THEN conjunct1]
    by (simp add: asg) (simp add: categoriesDb_def mkCategory_def)
  have c: "addCategory env0 env0 (mkCategory ''ventas'' ''Ventas'' ''expense'') categoriesDb =
     (Inr (Inr ((mkCategory ''ventas'' ''Ventas'' ''expense'')
                  \<lparr>c_updatedAt := Some ''2024-02-01T10:00:00.000Z''\<rparr>)),
      categoriesDb\<lparr>categories :=
        [mkCategory ''otros'' ''Otros'' ''both'',
         (mkCategory ''ventas'' ''Ventas'' ''expense'')
           \<lparr>c_updatedAt := Some ''2024-02-01T10:00:00.000Z''\<rparr>]\<rparr>)"
  proof -
    have no: "\<not> (\<exists>r\<in>set (categories categoriesDb).
        c_name r = c_name (mkCategory ''ventas'' ''Ventas'' ''expense'') \<and>
        c_id r \<noteq> c_id (assignCategoryIdCreatedAt env0 (mkCategory ''ventas'' ''Ventas'' ''expense'')))"
      by (simp add: asg) (simp add: categoriesDb_def mkCategory_def)
    obtain f where f: "store_get c_id
          (keyOf (c_id (assignCategoryIdCreatedAt env0 (mkCategory ''ventas'' ''Ventas'' ''expense''))))
          (categories categoriesDb) = Some f"
      and r: "addCategory env0 env0 (mkCategory ''ventas'' ''Ventas'' ''expense'') categoriesDb =
        (Inr (Inr (mergeCategory env0 f (categoryAsUpdates
            (assignCategoryIdCreatedAt env0 (mkCategory ''ventas'' ''Ventas'' ''expense''))))),
         categoriesDb\<lparr>categories :=
           filter (\<lambda>r. c_id r \<noteq>
               c_id (assignCategoryIdCreatedAt env0 (mkCategory ''ventas'' ''Ventas'' ''expense'')))
             (categories categoriesDb) @
           [mergeCategory env0 f (categoryAsUpdates
              (assignCategoryIdCreatedAt env0 (mkCategory ''ventas'' ''Ventas'' ''expense'')))]\<rparr>)"
      using addCategory_name_collision
        [OF i coll, of "''ventas''" "''expense''" env0 env0, THEN conjunct2, THEN conjunct1] no
      by blast
    have f': "f = mkCategory ''ventas'' ''Ventas'' ''income''"
      using f by (simp add: asg) (simp add: categoriesDb_def mkCategory_def store_get_def keyOf_def)
    show ?thesis
      unfolding r f'
      by (simp add: asg)
         (simp add: categoriesDb_def mkCategory_def mergeCategory_def categoryAsUpdates_def
            pick_def pickOpt_def env0_def)
  qed
  show ?thesis
    using i a b c by blast
qed

end
